theory Spec2Isabelle
  imports Main "HOL-Library.Word" "HOL-Library.Signed_Division"
begin

section \<open>Strings and decimal rendering\<close>

text \<open>
  \<open>std::string\<close> is a byte string, modelled as \<open>string\<close> (a list of 8-bit characters).
  \<open>std::to_string(int)\<close> prints a signed decimal numeral: a minus sign for a negative
  value, then the digits without leading zeros.
\<close>

definition digit_char :: "nat \<Rightarrow> char" where
  "digit_char d = ''0123456789'' ! d"

fun nat_to_dec :: "nat \<Rightarrow> string" where
  "nat_to_dec n = (if n < 10 then [digit_char n] else nat_to_dec (n div 10) @ [digit_char (n mod 10)])"

declare nat_to_dec.simps [simp del]

definition to_string :: "int \<Rightarrow> string" where
  "to_string i = (if i < 0 then CHR ''-'' # nat_to_dec (nat (- i)) else nat_to_dec (nat i))"

text \<open>The C++ \<open>int\<close> of the index vectors is a 32-bit two's complement integer.\<close>

type_synonym cint = "32 word"

definition to_string_int :: "cint \<Rightarrow> string" where
  "to_string_int w = to_string (sint w)"

section \<open>Wire objects and the query executor\<close>

text \<open>
  The K object of the engine's C interface (\<open>k.h\<close>, a header of the engine vendor that the
  repository includes): a type tag \<open>t\<close> and a payload. Atoms carry one scalar field of the
  union, typed vectors a sequence of scalars, general lists a sequence of K objects, a
  table (\<open>XT\<close>) points to a dictionary, a dictionary (\<open>XD\<close>) holds a key and a value object.
  Floating-point payloads are kept as their IEEE bit patterns. A symbol is a C string
  pointer, \<open>None\<close> being the null pointer. The byte member is kept as a number (\<open>G\<close>)
  in boolean and byte data and as a character (\<open>C\<close>) in char data.
\<close>

datatype scalar =
    G "8 word"
  | H "16 word"
  | I "32 word"
  | J "64 word"
  | E "32 word"
  | F "64 word"
  | S "string option"
  | C char

datatype K =
    Atom int scalar
  | Vec int "scalar list"
  | GList "K list"
  | Table K
  | Dict K K
  | Other int

text \<open>Type codes of \<open>k.h\<close>.\<close>

definition KB :: int where "KB = 1"
definition KG :: int where "KG = 4"
definition KH :: int where "KH = 5"
definition KI :: int where "KI = 6"
definition KJ :: int where "KJ = 7"
definition KE :: int where "KE = 8"
definition KF :: int where "KF = 9"
definition KC :: int where "KC = 10"
definition KS :: int where "KS = 11"
definition KP :: int where "KP = 12"
definition KM :: int where "KM = 13"
definition KD :: int where "KD = 14"
definition KZ :: int where "KZ = 15"
definition KN :: int where "KN = 16"
definition KU :: int where "KU = 17"
definition KV :: int where "KV = 18"
definition KT :: int where "KT = 19"
definition XT :: int where "XT = 98"
definition XD :: int where "XD = 99"

fun kt :: "K \<Rightarrow> int" where
  "kt (Atom t x) = t"
| "kt (Vec t xs) = t"
| "kt (GList ks) = 0"
| "kt (Table d) = XT"
| "kt (Dict k v) = XD"
| "kt (Other t) = t"

text \<open>
  The external engine: \<open>k(handle, query, (K)0)\<close> answers a query text with a K object or
  the null pointer. Its answer may depend on every query it has received before, so the
  engine is a function of the list of earlier queries and the current one. A session is
  the engine together with the log of queries sent so far.
\<close>

type_synonym engine = "string list \<Rightarrow> string \<Rightarrow> K option"

datatype QueryResult = QBool bool | QData K

fun to_bool :: "QueryResult \<Rightarrow> bool" where
  "to_bool (QBool b) = b"
| "to_bool (QData k) = True"

fun get_result :: "QueryResult \<Rightarrow> K option" where
  "get_result (QBool b) = None"
| "get_result (QData k) = Some k"

definition inline_query :: "engine \<Rightarrow> string list \<Rightarrow> string \<Rightarrow> QueryResult \<times> string list" where
  "inline_query eng log query =
     ((case eng log query of
         None \<Rightarrow> QBool False
       | Some result \<Rightarrow>
           if kt result = - 128 then QBool False
           else if kt result = 101 then QBool True
           else QData result),
      log @ [query])"

section \<open>Query builder: index-based selection\<close>

definition format_indices :: "cint list \<Rightarrow> string \<Rightarrow> string" where
  "format_indices indices default_value =
     (if indices = [] then default_value
      else ''('' @ foldl (\<lambda>a b. a @ '';'' @ to_string_int b) (to_string_int (hd indices)) (tl indices) @ '')'')"

definition build_iloc_query :: "string \<Rightarrow> cint list \<Rightarrow> cint list \<Rightarrow> string" where
  "build_iloc_query table_name rows cols =
     (let row_indices_str = format_indices rows (''til count '' @ table_name);
          column_indices_str = format_indices cols (''til count cols '' @ table_name)
      in ''(0!'' @ table_name @ '')['' @ row_indices_str @
         '';(cols '' @ table_name @ '')['' @ column_indices_str @ '']]'')"

text \<open>
  The rendering the specification describes: the indices in the caller's order, separated
  by semicolons, in parentheses.
\<close>

fun semicolon_separated :: "cint list \<Rightarrow> string" where
  "semicolon_separated [] = []"
| "semicolon_separated [x] = to_string_int x"
| "semicolon_separated (x # y # ys) = to_string_int x @ '';'' @ semicolon_separated (y # ys)"

definition index_list_text :: "cint list \<Rightarrow> string \<Rightarrow> string" where
  "index_list_text indices all_text =
     (if indices = [] then all_text else ''('' @ semicolon_separated indices @ '')'')"

section \<open>Join orchestrator\<close>

definition unkeyed_name :: "string \<Rightarrow> string" where
  "unkeyed_name table = table @ ''_unkeyed''"

definition prepare_tables :: "engine \<Rightarrow> string list \<Rightarrow> string \<Rightarrow> string \<Rightarrow> bool \<times> string list" where
  "prepare_tables eng log table1 table2 =
     (let t1_unkeyed = unkeyed_name table1;
          t2_unkeyed = unkeyed_name table2;
          prep_query = (t1_unkeyed @ '': 0!('' @ table1 @ '');'') @
                       (t2_unkeyed @ '': 0!('' @ table2 @ '');'');
          (prep_result, log') = inline_query eng log prep_query
      in (to_bool prep_result, log'))"

definition cleanup_query :: "string \<Rightarrow> string \<Rightarrow> string" where
  "cleanup_query t1_unkeyed t2_unkeyed =
     ''delete '' @ t1_unkeyed @ '' from `.; '' @ ''delete '' @ t2_unkeyed @ '' from `.;''"

definition cleanup_tables :: "engine \<Rightarrow> string list \<Rightarrow> string \<Rightarrow> string \<Rightarrow> string list" where
  "cleanup_tables eng log t1_unkeyed t2_unkeyed =
     snd (inline_query eng log (cleanup_query t1_unkeyed t2_unkeyed))"

definition execute_join ::
  "engine \<Rightarrow> string list \<Rightarrow> string \<Rightarrow> string \<Rightarrow> string \<Rightarrow> string \<Rightarrow> K option \<times> string list" where
  "execute_join eng log query result_name t1_unkeyed t2_unkeyed =
     (let (exec_result, log1) = inline_query eng log query
      in if \<not> to_bool exec_result then (None, cleanup_tables eng log1 t1_unkeyed t2_unkeyed)
         else
           let (result, log2) = inline_query eng log1 result_name;
               log3 = cleanup_tables eng log2 t1_unkeyed t2_unkeyed
           in if \<not> to_bool result then (None, log3) else (get_result result, log3))"

text \<open>The key column text \<open>c1`c2`...\<close> that the three keyed joins and the as-of join build.\<close>

definition key_cols_text :: "string list \<Rightarrow> string" where
  "key_cols_text join_columns = foldl (\<lambda>acc c. acc @ ''`'' @ c) (hd join_columns) (tl join_columns)"

definition inner_join_query :: "string \<Rightarrow> string \<Rightarrow> string \<Rightarrow> string list \<Rightarrow> string" where
  "inner_join_query table1 table2 result_name join_columns =
     (let t1_unkeyed = unkeyed_name table1; t2_unkeyed = unkeyed_name table2
      in if join_columns \<noteq> []
         then result_name @ '': '' @ t1_unkeyed @ '' ij `'' @ key_cols_text join_columns @
              '' xkey '' @ t2_unkeyed
         else result_name @ '': '' @ t1_unkeyed @ '' ij (enlist first cols['' @ t1_unkeyed @
              ''] inter cols['' @ t2_unkeyed @ '']) xkey '' @ t2_unkeyed)"

definition left_join_query :: "string \<Rightarrow> string \<Rightarrow> string \<Rightarrow> string list \<Rightarrow> string" where
  "left_join_query table1 table2 result_name join_columns =
     (let t1_unkeyed = unkeyed_name table1; t2_unkeyed = unkeyed_name table2
      in if join_columns \<noteq> []
         then result_name @ '': '' @ t1_unkeyed @ '' lj `'' @ key_cols_text join_columns @
              '' xkey '' @ t2_unkeyed
         else result_name @ '': '' @ t1_unkeyed @ '' lj (enlist first cols['' @ t1_unkeyed @
              ''] inter cols['' @ t2_unkeyed @ '']) xkey '' @ t2_unkeyed)"

definition right_join_query :: "string \<Rightarrow> string \<Rightarrow> string \<Rightarrow> string list \<Rightarrow> string" where
  "right_join_query table1 table2 result_name join_columns =
     (let t1_unkeyed = unkeyed_name table1; t2_unkeyed = unkeyed_name table2
      in if join_columns \<noteq> []
         then result_name @ '': '' @ t2_unkeyed @ '' lj `'' @ key_cols_text join_columns @
              '' xkey '' @ t1_unkeyed
         else result_name @ '': '' @ t2_unkeyed @ '' lj (enlist first cols['' @ t1_unkeyed @
              ''] inter cols['' @ t2_unkeyed @ '']) xkey '' @ t1_unkeyed)"

definition union_join_query :: "string \<Rightarrow> string \<Rightarrow> string \<Rightarrow> string" where
  "union_join_query table1 table2 result_name =
     result_name @ '': '' @ unkeyed_name table1 @ '' uj '' @ unkeyed_name table2"

text \<open>
  The four joins that stage, run one join query and fetch share one control flow; each
  returns the fetched object (\<open>None\<close> is the null pointer) and the log of the session.
\<close>

definition staged_join ::
  "engine \<Rightarrow> string list \<Rightarrow> string \<Rightarrow> string \<Rightarrow> string \<Rightarrow> string \<Rightarrow> K option \<times> string list" where
  "staged_join eng log table1 table2 result_name query =
     (let (ok, log1) = prepare_tables eng log table1 table2
      in if \<not> ok then (None, log1)
         else execute_join eng log1 query result_name (unkeyed_name table1) (unkeyed_name table2))"

definition inner_join ::
  "engine \<Rightarrow> string list \<Rightarrow> string \<Rightarrow> string \<Rightarrow> string \<Rightarrow> string list \<Rightarrow> K option \<times> string list" where
  "inner_join eng log table1 table2 result_name join_columns =
     staged_join eng log table1 table2 result_name
       (inner_join_query table1 table2 result_name join_columns)"

definition left_join ::
  "engine \<Rightarrow> string list \<Rightarrow> string \<Rightarrow> string \<Rightarrow> string \<Rightarrow> string list \<Rightarrow> K option \<times> string list" where
  "left_join eng log table1 table2 result_name join_columns =
     staged_join eng log table1 table2 result_name
       (left_join_query table1 table2 result_name join_columns)"

definition right_join ::
  "engine \<Rightarrow> string list \<Rightarrow> string \<Rightarrow> string \<Rightarrow> string \<Rightarrow> string list \<Rightarrow> K option \<times> string list" where
  "right_join eng log table1 table2 result_name join_columns =
     staged_join eng log table1 table2 result_name
       (right_join_query table1 table2 result_name join_columns)"

definition union_join ::
  "engine \<Rightarrow> string list \<Rightarrow> string \<Rightarrow> string \<Rightarrow> string \<Rightarrow> string list \<Rightarrow> K option \<times> string list" where
  "union_join eng log table1 table2 result_name join_columns =
     staged_join eng log table1 table2 result_name (union_join_query table1 table2 result_name)"

definition asof_join ::
  "engine \<Rightarrow> string list \<Rightarrow> string \<Rightarrow> string \<Rightarrow> string \<Rightarrow> string \<Rightarrow> string \<Rightarrow> string list
     \<Rightarrow> K option \<times> string list" where
  "asof_join eng log table1 table2 result_name time_column_left time_column_right join_columns =
     (let t1_unkeyed = unkeyed_name table1;
          t2_unkeyed = unkeyed_name table2;
          (ok, log1) = prepare_tables eng log table1 table2
      in if \<not> ok then (None, log1)
         else
           let join_by = (if join_columns = [] then [] else key_cols_text join_columns);
               rename_query = ''update '' @ time_column_right @ ''2:'' @ time_column_right @
                              '' from '' @ t2_unkeyed;
               (rename_result, log2) = inline_query eng log1 (t2_unkeyed @ ''_adj: '' @ rename_query)
           in if \<not> to_bool rename_result
              then (None, cleanup_tables eng log2 t1_unkeyed t2_unkeyed)
              else
                let aj_query =
                      (if join_by \<noteq> []
                       then result_name @ '': aj[`'' @ join_by @ ''`'' @ time_column_left @ '';'' @
                            t1_unkeyed @ '';'' @ t2_unkeyed @ ''_adj]''
                       else result_name @ '': aj[`'' @ time_column_left @ '';'' @
                            t1_unkeyed @ '';'' @ t2_unkeyed @ ''_adj]'');
                    (result, log3) = execute_join eng log2 aj_query result_name t1_unkeyed
                                       (t2_unkeyed @ ''_adj'');
                    (u, log4) = inline_query eng log3 (''delete '' @ t2_unkeyed @ ''_adj from `.'')
                in (result, log4))"

section \<open>Errors\<close>

text \<open>
  C++ exceptions are values: \<open>std::runtime_error\<close>, \<open>std::invalid_argument\<close> and
  \<open>std::out_of_range\<close> with their messages. \<open>UndefinedBehaviour\<close> stands for a read the
  language leaves undefined (a null or wild pointer, an index beyond a buffer).
\<close>

datatype error =
    RuntimeError string
  | InvalidArgument string
  | OutOfRange string
  | UndefinedBehaviour

section \<open>Regular expressions\<close>

text \<open>
  \<open>std::regex\<close> with the default ECMAScript grammar is a backtracking matcher: an
  alternation tries its left branch first, a quantifier is greedy, and \<open>regex_match\<close>
  reports the capture groups of the first path that consumes the whole input. \<open>ms r s\<close>
  lists, in that priority order, the rest of \<open>s\<close> after each way \<open>r\<close> can match a prefix
  of \<open>s\<close>. Character classes are those of the C locale.
\<close>

datatype rx =
    Cls "char \<Rightarrow> bool"
  | Eps
  | Seq rx rx
  | Alt rx rx
  | Star rx

fun ms :: "rx \<Rightarrow> string \<Rightarrow> string list" where
  "ms (Cls p) s = (case s of [] \<Rightarrow> [] | c # cs \<Rightarrow> if p c then [cs] else [])"
| "ms Eps s = [s]"
| "ms (Seq a b) s = concat (map (ms b) (ms a s))"
| "ms (Alt a b) s = ms a s @ ms b s"
| "ms (Star a) s =
     concat (map (\<lambda>s'. if length s' < length s then ms (Star a) s' else []) (ms a s)) @ [s]"

definition Opt :: "rx \<Rightarrow> rx" where
  "Opt r = Alt r Eps"

definition Plus :: "rx \<Rightarrow> rx" where
  "Plus r = Seq r (Star r)"

definition Ch :: "char \<Rightarrow> rx" where
  "Ch c = Cls (\<lambda>x. x = c)"

fun Lit :: "string \<Rightarrow> rx" where
  "Lit [] = Eps"
| "Lit (c # cs) = Seq (Ch c) (Lit cs)"

fun Rep :: "nat \<Rightarrow> rx \<Rightarrow> rx" where
  "Rep 0 r = Eps"
| "Rep (Suc n) r = Seq r (Rep n r)"

definition regex_match :: "rx \<Rightarrow> string \<Rightarrow> bool" where
  "regex_match r s = ([] \<in> set (ms r s))"

text \<open>The prefixes a pattern can consume, each with the rest, in priority order.\<close>

definition splits :: "rx \<Rightarrow> string \<Rightarrow> (string \<times> string) list" where
  "splits r s = map (\<lambda>rest. (take (length s - length rest) s, rest)) (ms r s)"

definition is_digit :: "char \<Rightarrow> bool" where
  "is_digit c = (c \<in> set ''0123456789'')"

definition is_alpha :: "char \<Rightarrow> bool" where
  "is_alpha c = (c \<in> set ''abcdefghijklmnopqrstuvwxyzABCDEFGHIJKLMNOPQRSTUVWXYZ'')"

definition is_alnum :: "char \<Rightarrow> bool" where
  "is_alnum c = (is_alpha c \<or> is_digit c)"

definition is_word :: "char \<Rightarrow> bool" where
  "is_word c = (is_alnum c \<or> c = CHR ''_'')"

definition is_space :: "char \<Rightarrow> bool" where
  "is_space c = (c \<in> set [CHR '' '', CHR 0x09, CHR 0x0A, CHR 0x0B, CHR 0x0C, CHR 0x0D])"

definition WS :: rx where
  "WS = Star (Cls is_space)"

section \<open>Query builder: condition-based selection\<close>

record ColumnMeta =
  name :: string
  type_code :: int

text \<open>
  The condition pattern of \<open>build_loc_query\<close>, piece by piece. A term is an identifier
  with an optional parenthesized argument text, a number, or a parenthesized group; an
  expression is terms joined by arithmetic operators.
\<close>

definition term_rx :: rx where
  "term_rx =
     Alt (Seq (Cls is_alpha) (Seq (Star (Cls is_word))
            (Opt (Seq (Ch CHR ''('') (Seq (Star (Cls (\<lambda>c. c \<noteq> CHR '')''))) (Ch CHR '')''))))))
    (Alt (Seq (Opt (Ch CHR ''-'')) (Seq (Star (Cls is_digit)) (Seq (Opt (Ch CHR ''.''))
            (Plus (Cls is_digit)))))
         (Seq (Ch CHR ''('') (Seq WS
            (Seq (Plus (Cls (\<lambda>c. is_word c \<or> is_space c \<or> c \<in> set ''+-*/()''))) (Seq WS (Ch CHR '')''))))))"

definition expr_rx :: rx where
  "expr_rx = Seq term_rx (Star (Seq WS (Seq (Cls (\<lambda>c. c \<in> set ''+-*/'')) (Seq WS term_rx))))"

definition op_rx :: rx where
  "op_rx = Alt (Seq (Cls (\<lambda>c. c \<in> set ''><=!~'')) (Opt (Cls (\<lambda>c. c \<in> set ''><=!~''))))
               (Lit ''like'')"

text \<open>
  \<open>std::regex_match(condition, matches, condition_regex)\<close>: the three capture groups of the
  first full match of \<open>^\s*(expr)\s*(op)\s*(expr)\s*$\<close>, or \<open>None\<close>. In the source,
  a term is
  \<^verbatim>\<open>(?:[a-zA-Z][a-zA-Z0-9_]*(?:\([^)]*\))?|-?\d*\.?\d+|\(\s*[\w\s+\-*/()]+\s*\))\<close>,
  an expression is a term followed by \<^verbatim>\<open>(?:\s*[\+\-*/]\s*(?:term))*\<close>, and the
  operator is \<^verbatim>\<open>([><=!~]{1,2}|like)\<close>.
\<close>

definition condition_regex :: "string \<Rightarrow> (string \<times> string \<times> string) option" where
  "condition_regex s =
     (case concat (map (\<lambda>r0.
             concat (map (\<lambda>(lhs, r1).
               concat (map (\<lambda>r2.
                 concat (map (\<lambda>(op, r3).
                   concat (map (\<lambda>r4.
                     concat (map (\<lambda>(rhs, r5).
                       concat (map (\<lambda>r6. if r6 = [] then [(lhs, op, rhs)] else [])
                         (ms WS r5)))
                       (splits expr_rx r4)))
                     (ms WS r3)))
                   (splits op_rx r2)))
                 (ms WS r1)))
               (splits expr_rx r0)))
             (ms WS s)) of
        [] \<Rightarrow> None
      | m # _ \<Rightarrow> Some m)"

definition valid_ops :: "(string \<times> string) list" where
  "valid_ops =
     [(''>'', ''>''), (''<'', ''<''), (''>='', ''>=''), (''<='', ''<=''),
      (''=='', ''=''), (''='', ''=''), (''!='', ''<>''), (''like'', ''like''),
      (''~'', ''~'')]"

fun find_first_of :: "string \<Rightarrow> string \<Rightarrow> nat option" where
  "find_first_of [] chars = None"
| "find_first_of (c # cs) chars =
     (if c \<in> set chars then Some 0 else map_option Suc (find_first_of cs chars))"

definition needs_evaluation :: "string \<Rightarrow> bool" where
  "needs_evaluation expr = (find_first_of expr ''+-*/()'' \<noteq> None)"

definition evaluate_expression :: "string \<Rightarrow> ColumnMeta list \<Rightarrow> string" where
  "evaluate_expression expr metadata =
     (if \<not> needs_evaluation expr then expr else ''('' @ expr @ '')'')"

definition process_condition ::
  "string \<times> string \<times> string \<Rightarrow> ColumnMeta list \<Rightarrow> (string \<times> string) list \<Rightarrow> string
     \<Rightarrow> error + string" where
  "process_condition matches metadata ops current_query =
     (case matches of (lhs, op, rhs) \<Rightarrow>
        (case map_of ops op of
           None \<Rightarrow> Inl (InvalidArgument (''Invalid operator: '' @ op))
         | Some mapped \<Rightarrow>
             let evaluated_lhs = evaluate_expression lhs metadata;
                 col_meta_iter = find (\<lambda>meta. name meta = lhs) metadata;
                 evaluated_rhs =
                   (case col_meta_iter of
                      Some meta \<Rightarrow>
                        if type_code meta = KS \<and> \<not> needs_evaluation rhs then ''`'' @ rhs
                        else evaluate_expression rhs metadata
                    | None \<Rightarrow> evaluate_expression rhs metadata)
             in Inr (''(0!select from ('' @ current_query @ '') where '' @ evaluated_lhs @ '' '' @
                     mapped @ '' '' @ evaluated_rhs @ '')'')))"

fun build_loc_loop :: "ColumnMeta list \<Rightarrow> string \<Rightarrow> string list \<Rightarrow> error + string" where
  "build_loc_loop metadata query_result [] = Inr query_result"
| "build_loc_loop metadata query_result (condition # rest) =
     (case condition_regex condition of
        None \<Rightarrow> Inl (InvalidArgument (''Invalid condition format: '' @ condition))
      | Some matches \<Rightarrow>
          (case process_condition matches metadata valid_ops query_result of
             Inl e \<Rightarrow> Inl e
           | Inr q \<Rightarrow> build_loc_loop metadata q rest))"

definition build_loc_query :: "string \<Rightarrow> string list \<Rightarrow> ColumnMeta list \<Rightarrow> error + string" where
  "build_loc_query table_name conditions metadata = build_loc_loop metadata table_name conditions"

text \<open>
  The specification's reading of a condition step. The operator map, the test for an
  arithmetic operator or a parenthesis, the text of one side, and the nesting of the
  steps, the last condition outermost.
\<close>

definition mapped_op :: "string \<Rightarrow> string option" where
  "mapped_op op =
     (if op = ''>'' then Some ''>''
      else if op = ''<'' then Some ''<''
      else if op = ''>='' then Some ''>=''
      else if op = ''<='' then Some ''<=''
      else if op = ''='' \<or> op = ''=='' then Some ''=''
      else if op = ''!='' then Some ''<>''
      else if op = ''like'' then Some ''like''
      else if op = ''~'' then Some ''~''
      else None)"

definition accepted :: "string \<Rightarrow> bool" where
  "accepted condition =
     (case condition_regex condition of
        None \<Rightarrow> False
      | Some (lhs, op, rhs) \<Rightarrow> mapped_op op \<noteq> None)"

definition compound :: "string \<Rightarrow> bool" where
  "compound expr = (\<exists>c \<in> set expr. c \<in> set ''+-*/()'')"

definition side_text :: "string \<Rightarrow> string" where
  "side_text expr = (if compound expr then ''('' @ expr @ '')'' else expr)"

text \<open>The schema as a map from column name to type code.\<close>

definition schema_type :: "ColumnMeta list \<Rightarrow> string \<Rightarrow> int option" where
  "schema_type metadata = map_of (map (\<lambda>meta. (name meta, type_code meta)) metadata)"

definition symbol_column :: "ColumnMeta list \<Rightarrow> string \<Rightarrow> bool" where
  "symbol_column metadata lhs = (schema_type metadata lhs = Some KS)"

definition rhs_text :: "ColumnMeta list \<Rightarrow> string \<Rightarrow> string \<Rightarrow> string" where
  "rhs_text metadata lhs rhs =
     (if symbol_column metadata lhs \<and> \<not> compound rhs then ''`'' @ rhs else side_text rhs)"

definition step_text :: "ColumnMeta list \<Rightarrow> string \<Rightarrow> string \<Rightarrow> string" where
  "step_text metadata prev condition =
     (case condition_regex condition of
        None \<Rightarrow> prev
      | Some (lhs, op, rhs) \<Rightarrow>
          ''(0!select from ('' @ prev @ '') where '' @ side_text lhs @ '' '' @
          (case mapped_op op of None \<Rightarrow> [] | Some m \<Rightarrow> m) @ '' '' @ rhs_text metadata lhs rhs @ '')'')"

fun nested_query :: "ColumnMeta list \<Rightarrow> string \<Rightarrow> string list \<Rightarrow> string" where
  "nested_query metadata table_name [] = table_name"
| "nested_query metadata table_name (last_condition # earlier) =
     step_text metadata (nested_query metadata table_name earlier) last_condition"

section \<open>Canonical values and the value converter\<close>

datatype KDBValue =
    VNull
  | VBoolean bool
  | VByte "8 word"
  | VShort "16 word"
  | VInteger "32 word"
  | VLong "64 word"
  | VReal "32 word"
  | VFloat "64 word"
  | VChar char
  | VSymbol string
  | VDate "64 word"
  | VMonth "32 word"
  | VTime "32 word"
  | VMinute "32 word"
  | VSecond "32 word"
  | VDateTime "64 word"
  | VTimeSpan "64 word"

datatype KDBResult =
    RValue KDBValue
  | RRow "KDBValue list"
  | RTable "KDBValue list list"

text \<open>
  Reading a member of the payload union. Reading the member that the object does not
  hold is undefined.
\<close>

fun fld_g :: "scalar \<Rightarrow> error + 8 word" where
  "fld_g (G x) = Inr x"
| "fld_g _ = Inl UndefinedBehaviour"

fun fld_h :: "scalar \<Rightarrow> error + 16 word" where
  "fld_h (H x) = Inr x"
| "fld_h _ = Inl UndefinedBehaviour"

fun fld_i :: "scalar \<Rightarrow> error + 32 word" where
  "fld_i (I x) = Inr x"
| "fld_i _ = Inl UndefinedBehaviour"

fun fld_j :: "scalar \<Rightarrow> error + 64 word" where
  "fld_j (J x) = Inr x"
| "fld_j _ = Inl UndefinedBehaviour"

fun fld_e :: "scalar \<Rightarrow> error + 32 word" where
  "fld_e (E x) = Inr x"
| "fld_e _ = Inl UndefinedBehaviour"

fun fld_f :: "scalar \<Rightarrow> error + 64 word" where
  "fld_f (F x) = Inr x"
| "fld_f _ = Inl UndefinedBehaviour"

fun fld_c :: "scalar \<Rightarrow> error + char" where
  "fld_c (C x) = Inr x"
| "fld_c _ = Inl UndefinedBehaviour"

fun fld_s :: "scalar \<Rightarrow> error + string option" where
  "fld_s (S x) = Inr x"
| "fld_s _ = Inl UndefinedBehaviour"

definition map_ok :: "('a \<Rightarrow> 'b) \<Rightarrow> error + 'a \<Rightarrow> error + 'b" where
  "map_ok f r = (case r of Inl e \<Rightarrow> Inl e | Inr v \<Rightarrow> Inr (f v))"

fun collect :: "(error + 'a) list \<Rightarrow> error + 'a list" where
  "collect [] = Inr []"
| "collect (r # rs) =
     (case r of
        Inl e \<Rightarrow> Inl e
      | Inr v \<Rightarrow> (case collect rs of Inl e \<Rightarrow> Inl e | Inr vs \<Rightarrow> Inr (v # vs)))"

definition convert_atom :: "int \<Rightarrow> scalar \<Rightarrow> error + KDBValue" where
  "convert_atom t x =
     (if t = - KB then map_ok (\<lambda>g. VBoolean (g \<noteq> 0)) (fld_g x)
      else if t = - KG then map_ok VByte (fld_g x)
      else if t = - KH then map_ok VShort (fld_h x)
      else if t = - KI then map_ok VInteger (fld_i x)
      else if t = - KJ then map_ok VLong (fld_j x)
      else if t = - KE then map_ok VReal (fld_e x)
      else if t = - KF then map_ok VFloat (fld_f x)
      else if t = - KC then map_ok VChar (fld_c x)
      else if t = - KS then map_ok (\<lambda>s. case s of None \<Rightarrow> VNull | Some val \<Rightarrow> VSymbol val) (fld_s x)
      else if t = - KM then map_ok VMonth (fld_i x)
      else if t = - KD then map_ok (\<lambda>i. VDate (scast i)) (fld_i x)
      else if t = - KU then map_ok VMinute (fld_i x)
      else if t = - KV then map_ok VSecond (fld_i x)
      else if t = - KT then map_ok VTime (fld_i x)
      else if t = - KZ then map_ok VDateTime (fld_f x)
      else if t = - KN then map_ok VTimeSpan (fld_j x)
      else Inr VNull)"

definition convert_vector :: "int \<Rightarrow> scalar list \<Rightarrow> nat \<Rightarrow> error + KDBValue" where
  "convert_vector t xs idx =
     (if idx \<ge> length xs then Inr VNull
      else
        let x = xs ! idx in
        if t = KB then map_ok (\<lambda>g. VBoolean (g \<noteq> 0)) (fld_g x)
        else if t = KG then map_ok VByte (fld_g x)
        else if t = KH then map_ok VShort (fld_h x)
        else if t = KI then map_ok VInteger (fld_i x)
        else if t = KJ then map_ok VLong (fld_j x)
        else if t = KE then map_ok VReal (fld_e x)
        else if t = KF then map_ok VFloat (fld_f x)
        else if t = KC then map_ok VChar (fld_c x)
        else if t = KS then
          (case fld_s x of
             Inl e \<Rightarrow> Inl e
           | Inr None \<Rightarrow> Inl UndefinedBehaviour
           | Inr (Some val) \<Rightarrow> Inr (VSymbol val))
        else if t = KM then map_ok VMonth (fld_i x)
        else if t = KD then map_ok (\<lambda>i. VDate (scast i)) (fld_i x)
        else if t = KU then map_ok VMinute (fld_i x)
        else if t = KV then map_ok VSecond (fld_i x)
        else if t = KT then map_ok VTime (fld_i x)
        else if t = KZ then map_ok VDateTime (fld_f x)
        else if t = KN then map_ok VTimeSpan (fld_j x)
        else Inr VNull)"

text \<open>
  \<open>convert_k_to_value(data, idx)\<close> for a non-null \<open>data\<close>. A table, a dictionary or a
  function object has a positive tag that no vector case handles: the result is the null
  value whatever its length field holds.
\<close>

function convert_k_to_value :: "K \<Rightarrow> nat \<Rightarrow> error + KDBValue" where
  "convert_k_to_value (Atom t x) idx = (if t < 0 then convert_atom t x else Inl UndefinedBehaviour)"
| "convert_k_to_value (Vec t xs) idx = (if t > 0 then convert_vector t xs idx else Inl UndefinedBehaviour)"
| "convert_k_to_value (GList ks) idx =
     (if idx \<ge> length ks then Inr VNull else convert_k_to_value (ks ! idx) 0)"
| "convert_k_to_value (Table d) idx = Inr VNull"
| "convert_k_to_value (Dict k v) idx = Inr VNull"
| "convert_k_to_value (Other t) idx = (if t = 0 then Inl UndefinedBehaviour else Inr VNull)"
  by pat_completeness auto
termination
proof (relation "measure (\<lambda>(k, idx). size k)")
  show "wf (measure (\<lambda>(k, idx). size k))" by simp
next
  fix ks :: "K list" and idx :: nat
  assume "\<not> length ks \<le> idx"
  then have "ks ! idx \<in> set ks" by simp
  then have "size (ks ! idx) < Suc (size_list size ks)"
    by (simp add: less_Suc_eq_le size_list_estimation')
  then show "((ks ! idx, 0), (GList ks, idx)) \<in> measure (\<lambda>(k, idx). size k)" by simp
qed

section \<open>Result shaper\<close>

text \<open>The length field \<open>n\<close>, which only vectors, general lists and dictionaries hold.\<close>

fun kn :: "K \<Rightarrow> error + nat" where
  "kn (Vec t xs) = Inr (length xs)"
| "kn (GList ks) = Inr (length ks)"
| "kn (Dict k v) = Inr 2"
| "kn _ = Inl UndefinedBehaviour"

definition process_single_row :: "K list \<Rightarrow> error + KDBResult" where
  "process_single_row cols = map_ok RRow (collect (map (\<lambda>coldata. convert_k_to_value coldata 0) cols))"

definition process_multiple_rows :: "K list \<Rightarrow> nat \<Rightarrow> error + KDBResult" where
  "process_multiple_rows cols num_rows =
     map_ok RTable
       (collect (map (\<lambda>row. collect (map (\<lambda>coldata. convert_k_to_value coldata row) cols))
          [0 ..< num_rows]))"

definition process_table_result :: "K option \<Rightarrow> error + KDBResult" where
  "process_table_result result =
     (case result of
        None \<Rightarrow> Inl (RuntimeError ''Invalid table result'')
      | Some r \<Rightarrow>
          if kt r \<noteq> XT then Inl (RuntimeError ''Invalid table result'')
          else
            (case r of
               Table (Dict keys (GList (col0 # cols))) \<Rightarrow>
                 (case kn col0 of
                    Inl e \<Rightarrow> Inl e
                  | Inr num_rows \<Rightarrow>
                      if num_rows = 0 then Inr (RTable [])
                      else if num_rows = 1 then process_single_row (col0 # cols)
                      else process_multiple_rows (col0 # cols) num_rows)
             | _ \<Rightarrow> Inl UndefinedBehaviour))"

text \<open>
  \<open>kK(row_data)[j]\<close> for \<open>j < row_data->n\<close>: the elements of a general list. On any other
  object the read is undefined.
\<close>

fun row_elements :: "K \<Rightarrow> error + K list" where
  "row_elements (GList ks) = Inr ks"
| "row_elements _ = Inl UndefinedBehaviour"

definition process_general_list :: "K list \<Rightarrow> error + KDBResult" where
  "process_general_list ks =
     (if ks = [] then Inr (RRow [])
      else if kt (hd ks) = 0 then
        map_ok RTable
          (collect (map (\<lambda>row_data.
             case row_elements row_data of
               Inl e \<Rightarrow> Inl e
             | Inr elems \<Rightarrow> collect (map (\<lambda>el. convert_k_to_value el 0) elems)) ks))
      else map_ok RRow (collect (map (\<lambda>el. convert_k_to_value el 0) ks)))"

definition process_vector :: "K \<Rightarrow> error + KDBResult" where
  "process_vector result =
     (case result of
        Vec t xs \<Rightarrow> map_ok RRow (collect (map (convert_k_to_value result) [0 ..< length xs]))
      | Dict k v \<Rightarrow> map_ok RRow (collect (map (convert_k_to_value result) [0 ..< 2]))
      | _ \<Rightarrow> Inl UndefinedBehaviour)"

definition process_iloc_result :: "K option \<Rightarrow> error + KDBResult" where
  "process_iloc_result result =
     (case result of
        None \<Rightarrow> Inl (RuntimeError ''Query returned null result'')
      | Some r \<Rightarrow>
          if kt r < 0 then map_ok RValue (convert_k_to_value r 0)
          else if kt r = 0 then
            (case r of GList ks \<Rightarrow> process_general_list ks | _ \<Rightarrow> Inl UndefinedBehaviour)
          else process_vector r)"

section \<open>Type registry\<close>

subsection \<open>Text validators\<close>

definition to_lower :: "char \<Rightarrow> char" where
  "to_lower c =
     (case map_of (zip ''ABCDEFGHIJKLMNOPQRSTUVWXYZ'' ''abcdefghijklmnopqrstuvwxyz'') c of
        None \<Rightarrow> c
      | Some l \<Rightarrow> l)"

text \<open>\<open>s.c_str()\<close> as a C string: the characters before the first NUL.\<close>

definition c_str :: "string \<Rightarrow> string" where
  "c_str s = takeWhile (\<lambda>c. c \<noteq> CHR 0x00) s"

fun Seqs :: "rx list \<Rightarrow> rx" where
  "Seqs [] = Eps"
| "Seqs (r # rs) = Seq r (Seqs rs)"

definition D :: rx where
  "D = Cls is_digit"

text \<open>
  \<open>strtol(s, &end, 10)\<close> consumes white space, an optional sign and decimal digits; the
  validator accepts when at least one digit was read and \<open>end\<close> is at the terminating NUL.
\<close>

definition is_integer :: "string \<Rightarrow> bool" where
  "is_integer s =
     (if s = [] then False
      else
        let s1 = dropWhile is_space (c_str s);
            s2 = (case s1 of [] \<Rightarrow> [] | c # cs \<Rightarrow> if c = CHR ''-'' \<or> c = CHR ''+'' then cs else s1)
        in takeWhile is_digit s2 \<noteq> [] \<and> dropWhile is_digit s2 = [])"

text \<open>
  \<open>strtod\<close> consumes white space, an optional sign, and a decimal or hexadecimal
  floating constant, \<open>inf\<close>, \<open>infinity\<close> or \<open>nan\<close> with an optional parenthesized
  character sequence, letters in either case. Its end pointer is at the terminating NUL
  exactly when the whole C string has that form.
\<close>

definition is_xdigit :: "char \<Rightarrow> bool" where
  "is_xdigit c = (c \<in> set ''0123456789abcdefABCDEF'')"

definition Ci :: "char \<Rightarrow> rx" where
  "Ci c = Cls (\<lambda>x. to_lower x = c)"

definition float_rx :: rx where
  "float_rx =
     Seqs [WS, Opt (Cls (\<lambda>c. c = CHR ''-'' \<or> c = CHR ''+'')),
       Alt (Seqs [Alt (Seqs [Plus D, Opt (Seq (Ch CHR ''.'') (Star D))]) (Seq (Ch CHR ''.'') (Plus D)),
                  Opt (Seqs [Ci CHR ''e'', Opt (Cls (\<lambda>c. c = CHR ''-'' \<or> c = CHR ''+'')), Plus D])])
      (Alt (Seqs [Ch CHR ''0'', Ci CHR ''x'',
                  Alt (Seqs [Plus (Cls is_xdigit), Opt (Seq (Ch CHR ''.'') (Star (Cls is_xdigit)))])
                      (Seq (Ch CHR ''.'') (Plus (Cls is_xdigit))),
                  Opt (Seqs [Ci CHR ''p'', Opt (Cls (\<lambda>c. c = CHR ''-'' \<or> c = CHR ''+'')), Plus D])])
      (Alt (Seqs [Ci CHR ''i'', Ci CHR ''n'', Ci CHR ''f'',
                  Opt (Seqs [Ci CHR ''i'', Ci CHR ''n'', Ci CHR ''i'', Ci CHR ''t'', Ci CHR ''y''])])
           (Seqs [Ci CHR ''n'', Ci CHR ''a'', Ci CHR ''n'',
                  Opt (Seqs [Ch CHR ''('', Star (Cls is_word), Ch CHR '')''])])))]"

definition is_float :: "string \<Rightarrow> bool" where
  "is_float s = (if s = [] then False else regex_match float_rx (c_str s))"

definition is_boolean :: "string \<Rightarrow> bool" where
  "is_boolean s = (map to_lower s \<in> set [''true'', ''false'', ''1'', ''0''])"

definition is_date :: "string \<Rightarrow> bool" where
  "is_date s = regex_match (Seqs [Rep 4 D, Ch CHR ''-'', Rep 2 D, Ch CHR ''-'', Rep 2 D]) s"

definition is_datetime :: "string \<Rightarrow> bool" where
  "is_datetime s =
     regex_match (Seqs [Rep 4 D, Ch CHR ''-'', Rep 2 D, Ch CHR ''-'', Rep 2 D,
                        Cls (\<lambda>c. c = CHR ''T'' \<or> c = CHR '' ''),
                        Rep 2 D, Ch CHR '':'', Rep 2 D, Ch CHR '':'', Rep 2 D,
                        Opt (Seq (Ch CHR ''.'') (Plus D))]) s"

definition is_time :: "string \<Rightarrow> bool" where
  "is_time s =
     regex_match (Seqs [Rep 2 D, Ch CHR '':'', Rep 2 D, Ch CHR '':'', Rep 2 D,
                        Opt (Seq (Ch CHR ''.'') (Plus D))]) s"

definition is_timestamp :: "string \<Rightarrow> bool" where
  "is_timestamp s =
     regex_match (Seqs [Rep 4 D, Ch CHR ''.'', Rep 2 D, Ch CHR ''.'', Rep 2 D, Ch CHR ''D'',
                        Rep 2 D, Ch CHR '':'', Rep 2 D, Ch CHR '':'', Rep 2 D, Ch CHR ''.'',
                        Rep 9 D]) s"

definition is_month :: "string \<Rightarrow> bool" where
  "is_month s = regex_match (Seqs [Rep 4 D, Ch CHR ''.'', Rep 2 D, Ch CHR ''m'']) s"

definition is_timespan :: "string \<Rightarrow> bool" where
  "is_timespan s =
     regex_match (Seqs [Plus D, Ch CHR ''D'', Rep 2 D, Ch CHR '':'', Rep 2 D, Ch CHR '':'', Rep 2 D,
                        Ch CHR ''.'', Rep 9 D]) s"

definition is_minute :: "string \<Rightarrow> bool" where
  "is_minute s = regex_match (Seqs [Rep 2 D, Ch CHR '':'', Rep 2 D]) s"

definition is_second :: "string \<Rightarrow> bool" where
  "is_second s = regex_match (Seqs [Rep 2 D, Ch CHR '':'', Rep 2 D, Ch CHR '':'', Rep 2 D]) s"

subsection \<open>Text to number\<close>

text \<open>
  \<open>std::stoi\<close> and \<open>std::stoll\<close> read white space, an optional sign and decimal digits,
  ignore what follows, and throw \<open>invalid_argument\<close> when there is no digit and
  \<open>out_of_range\<close> when the value does not fit.
\<close>

datatype conv_error = NoConversion | Range

definition digit_val :: "char \<Rightarrow> int" where
  "digit_val c = int (of_char c) - 48"

definition dec_value :: "string \<Rightarrow> int" where
  "dec_value ds = foldl (\<lambda>a c. 10 * a + digit_val c) 0 ds"

definition strto_int :: "string \<Rightarrow> int option" where
  "strto_int s =
     (let s1 = dropWhile is_space (c_str s);
          neg = (case s1 of [] \<Rightarrow> False | c # cs \<Rightarrow> c = CHR ''-'');
          s2 = (case s1 of [] \<Rightarrow> [] | c # cs \<Rightarrow> if c = CHR ''-'' \<or> c = CHR ''+'' then cs else s1);
          ds = takeWhile is_digit s2
      in if ds = [] then None else Some (if neg then - dec_value ds else dec_value ds))"

definition stoi :: "string \<Rightarrow> conv_error + 32 word" where
  "stoi s =
     (case strto_int s of
        None \<Rightarrow> Inl NoConversion
      | Some n \<Rightarrow> if n < - (2 ^ 31) \<or> 2 ^ 31 \<le> n then Inl Range else Inr (word_of_int n))"

definition stoll :: "string \<Rightarrow> conv_error + 64 word" where
  "stoll s =
     (case strto_int s of
        None \<Rightarrow> Inl NoConversion
      | Some n \<Rightarrow> if n < - (2 ^ 63) \<or> 2 ^ 63 \<le> n then Inl Range else Inr (word_of_int n))"

definition thrown :: "conv_error \<Rightarrow> error" where
  "thrown e = (case e of NoConversion \<Rightarrow> InvalidArgument ''no conversion'' | Range \<Rightarrow> OutOfRange ''out of range'')"

subsection \<open>The C library and floating point\<close>

text \<open>
  What the registry takes from the C and C++ libraries without it being code of the
  repository: conversion between text and floating point, the IEEE comparison, the NaN
  patterns of the null macros, and the calendar functions.
\<close>

record libc =
  stof :: "string \<Rightarrow> conv_error + 32 word"
  stod :: "string \<Rightarrow> conv_error + 64 word"
  fixed7_float :: "32 word \<Rightarrow> string"
  fixed7_double :: "64 word \<Rightarrow> string"
  ne :: "32 word"
  nf :: "64 word"
  double_eq :: "64 word \<Rightarrow> 64 word \<Rightarrow> bool"
  get_time_mktime :: "string \<Rightarrow> string \<Rightarrow> int option"
  get_time_hms :: "string \<Rightarrow> (int \<times> int \<times> int) option"
  put_time_gmtime :: "string \<Rightarrow> int \<Rightarrow> string"
  seconds_to_days :: "int \<Rightarrow> 64 word"
  days_to_seconds :: "64 word \<Rightarrow> int"

definition nh :: "16 word" where "nh = 0x8000"
definition ni :: "32 word" where "ni = 0x80000000"
definition nj :: "64 word" where "nj = 0x8000000000000000"

definition parse_date :: "libc \<Rightarrow> string \<Rightarrow> 32 word" where
  "parse_date lib s =
     (case get_time_mktime lib ''%Y-%m-%d'' s of
        None \<Rightarrow> ni
      | Some time \<Rightarrow> if time = - 1 then ni else word_of_int ((time - 946684800) sdiv 86400))"

definition parse_datetime :: "libc \<Rightarrow> string \<Rightarrow> 64 word" where
  "parse_datetime lib s =
     (case get_time_mktime lib ''%Y-%m-%d %H:%M:%S'' s of
        None \<Rightarrow> nf lib
      | Some time \<Rightarrow> if time = - 1 then nf lib else seconds_to_days lib (time - 946684800))"

definition parse_time :: "libc \<Rightarrow> string \<Rightarrow> 32 word" where
  "parse_time lib s =
     (case get_time_hms lib s of
        None \<Rightarrow> ni
      | Some (tm_hour, tm_min, tm_sec) \<Rightarrow> word_of_int ((tm_hour * 3600 + tm_min * 60 + tm_sec) * 1000))"

subsection \<open>Columns\<close>

definition cell :: "K \<Rightarrow> nat \<Rightarrow> error + scalar" where
  "cell k idx =
     (case k of
        Vec t xs \<Rightarrow> if idx < length xs then Inr (xs ! idx) else Inl UndefinedBehaviour
      | _ \<Rightarrow> Inl UndefinedBehaviour)"

definition put_cell :: "K \<Rightarrow> nat \<Rightarrow> scalar \<Rightarrow> error + K" where
  "put_cell k idx v =
     (case k of
        Vec t xs \<Rightarrow> if idx < length xs then Inr (Vec t (xs[idx := v])) else Inl UndefinedBehaviour
      | _ \<Rightarrow> Inl UndefinedBehaviour)"

definition bind_err :: "error + 'a \<Rightarrow> ('a \<Rightarrow> error + 'b) \<Rightarrow> error + 'b" where
  "bind_err r f = (case r of Inl e \<Rightarrow> Inl e | Inr v \<Rightarrow> f v)"

definition trim4 :: "string \<Rightarrow> string" where
  "trim4 s =
     (let ws = (\<lambda>c. c \<in> set [CHR '' '', CHR 0x0A, CHR 0x0D, CHR 0x09])
      in rev (dropWhile ws (rev (dropWhile ws s))))"

definition pad2 :: "string \<Rightarrow> string" where
  "pad2 s = replicate (2 - length s) CHR ''0'' @ s"

subsection \<open>The registry entries\<close>

record TypeInfo =
  kdb_type :: int
  type_name :: string
  type_char :: char
  validator :: "(string \<Rightarrow> bool) option"
  null_assigner :: "K \<Rightarrow> nat \<Rightarrow> error + K"
  value_assigner :: "K \<Rightarrow> string \<Rightarrow> nat \<Rightarrow> error + K"
  formatter :: "K \<Rightarrow> nat \<Rightarrow> error + string"

definition boolean_info :: TypeInfo where
  "boolean_info = \<lparr>
     kdb_type = KB, type_name = ''boolean'', type_char = CHR ''b'',
     validator = Some is_boolean,
     null_assigner = (\<lambda>k idx. put_cell k idx (G 0)),
     value_assigner = (\<lambda>k v idx.
        let lower = map to_lower (trim4 v)
        in put_cell k idx (G (if lower \<in> set [''true'', ''1'', ''t'', ''yes'', ''y''] then 1 else 0))),
     formatter = (\<lambda>k idx. bind_err (cell k idx) (\<lambda>x. map_ok (\<lambda>g. if g \<noteq> 0 then ''true'' else ''false'') (fld_g x))) \<rparr>"

definition byte_info :: TypeInfo where
  "byte_info = \<lparr>
     kdb_type = KG, type_name = ''byte'', type_char = CHR ''x'',
     validator = Some (\<lambda>s. length s = 1),
     null_assigner = (\<lambda>k idx. put_cell k idx (G 0)),
     value_assigner = (\<lambda>k v idx. put_cell k idx (G (of_char (case v of [] \<Rightarrow> CHR 0x00 | c # cs \<Rightarrow> c)))),
     formatter = (\<lambda>k idx. bind_err (cell k idx) (\<lambda>x. map_ok (\<lambda>g. to_string (uint g)) (fld_g x))) \<rparr>"

definition short_info :: TypeInfo where
  "short_info = \<lparr>
     kdb_type = KH, type_name = ''short'', type_char = CHR ''h'',
     validator = Some is_integer,
     null_assigner = (\<lambda>k idx. put_cell k idx (H nh)),
     value_assigner = (\<lambda>k v idx.
        case stoi v of Inl e \<Rightarrow> Inl (thrown e) | Inr n \<Rightarrow> put_cell k idx (H (ucast n))),
     formatter = (\<lambda>k idx. bind_err (cell k idx) (\<lambda>x. map_ok (\<lambda>h. to_string (sint h)) (fld_h x))) \<rparr>"

definition int_info :: TypeInfo where
  "int_info = \<lparr>
     kdb_type = KI, type_name = ''int'', type_char = CHR ''i'',
     validator = Some is_integer,
     null_assigner = (\<lambda>k idx. put_cell k idx (I ni)),
     value_assigner = (\<lambda>k v idx.
        case stoi v of Inl e \<Rightarrow> Inl (thrown e) | Inr n \<Rightarrow> put_cell k idx (I n)),
     formatter = (\<lambda>k idx. bind_err (cell k idx) (\<lambda>x. map_ok (\<lambda>i. to_string (sint i)) (fld_i x))) \<rparr>"

definition long_info :: TypeInfo where
  "long_info = \<lparr>
     kdb_type = KJ, type_name = ''long'', type_char = CHR ''j'',
     validator = Some is_integer,
     null_assigner = (\<lambda>k idx. put_cell k idx (J nj)),
     value_assigner = (\<lambda>k v idx.
        case stoll v of Inl e \<Rightarrow> Inl (thrown e) | Inr n \<Rightarrow> put_cell k idx (J n)),
     formatter = (\<lambda>k idx. bind_err (cell k idx) (\<lambda>x. map_ok (\<lambda>j. to_string (sint j)) (fld_j x))) \<rparr>"

definition real_info :: "libc \<Rightarrow> TypeInfo" where
  "real_info lib = \<lparr>
     kdb_type = KE, type_name = ''real'', type_char = CHR ''e'',
     validator = Some is_float,
     null_assigner = (\<lambda>k idx. put_cell k idx (E (ne lib))),
     value_assigner = (\<lambda>k v idx.
        case stof lib v of Inl e \<Rightarrow> Inl (thrown e) | Inr x \<Rightarrow> put_cell k idx (E x)),
     formatter = (\<lambda>k idx. bind_err (cell k idx) (\<lambda>x. map_ok (fixed7_float lib) (fld_e x))) \<rparr>"

definition float_info :: "libc \<Rightarrow> TypeInfo" where
  "float_info lib = \<lparr>
     kdb_type = KF, type_name = ''float'', type_char = CHR ''f'',
     validator = Some is_float,
     null_assigner = (\<lambda>k idx. put_cell k idx (F (nf lib))),
     value_assigner = (\<lambda>k v idx.
        case stod lib v of Inl e \<Rightarrow> Inl (thrown e) | Inr x \<Rightarrow> put_cell k idx (F x)),
     formatter = (\<lambda>k idx. bind_err (cell k idx) (\<lambda>x. map_ok (fixed7_double lib) (fld_f x))) \<rparr>"

definition char_info :: TypeInfo where
  "char_info = \<lparr>
     kdb_type = KC, type_name = ''char'', type_char = CHR ''c'',
     validator = Some (\<lambda>s. length s = 1),
     null_assigner = (\<lambda>k idx. put_cell k idx (C CHR '' '')),
     value_assigner = (\<lambda>k v idx. put_cell k idx (C (case v of [] \<Rightarrow> CHR '' '' | c # cs \<Rightarrow> c))),
     formatter = (\<lambda>k idx. bind_err (cell k idx) (\<lambda>x. map_ok (\<lambda>c. [c]) (fld_c x))) \<rparr>"

definition date_info :: "libc \<Rightarrow> TypeInfo" where
  "date_info lib = \<lparr>
     kdb_type = KD, type_name = ''date'', type_char = CHR ''d'',
     validator = Some is_date,
     null_assigner = (\<lambda>k idx. put_cell k idx (I ni)),
     value_assigner = (\<lambda>k v idx. put_cell k idx (I (parse_date lib v))),
     formatter = (\<lambda>k idx. bind_err (cell k idx) (\<lambda>x. map_ok
        (\<lambda>days. if days = ni then ''NULL''
                 else put_time_gmtime lib ''%Y-%m-%d'' (sint days * 86400 + 946684800)) (fld_i x))) \<rparr>"

definition datetime_info :: "libc \<Rightarrow> TypeInfo" where
  "datetime_info lib = \<lparr>
     kdb_type = KZ, type_name = ''datetime'', type_char = CHR ''z'',
     validator = Some is_datetime,
     null_assigner = (\<lambda>k idx. put_cell k idx (F (nf lib))),
     value_assigner = (\<lambda>k v idx. put_cell k idx (F (parse_datetime lib v))),
     formatter = (\<lambda>k idx. bind_err (cell k idx) (\<lambda>x. map_ok
        (\<lambda>days. if double_eq lib days (nf lib) then ''NULL''
                 else put_time_gmtime lib ''%Y-%m-%d %H:%M:%S'' (days_to_seconds lib days + 946684800))
        (fld_f x))) \<rparr>"

definition time_info :: "libc \<Rightarrow> TypeInfo" where
  "time_info lib = \<lparr>
     kdb_type = KT, type_name = ''time'', type_char = CHR ''t'',
     validator = Some is_time,
     null_assigner = (\<lambda>k idx. put_cell k idx (I ni)),
     value_assigner = (\<lambda>k v idx. put_cell k idx (I (parse_time lib v))),
     formatter = (\<lambda>k idx. bind_err (cell k idx) (\<lambda>x. map_ok
        (\<lambda>milliseconds.
           if milliseconds = ni then ''NULL''
           else
             let total_seconds = sint milliseconds sdiv 1000;
                 hours = total_seconds sdiv 3600;
                 minutes = (total_seconds smod 3600) sdiv 60;
                 seconds = total_seconds smod 60
             in pad2 (to_string hours) @ '':'' @ pad2 (to_string minutes) @ '':'' @
                pad2 (to_string seconds)) (fld_i x))) \<rparr>"

definition symbol_info :: TypeInfo where
  "symbol_info = \<lparr>
     kdb_type = KS, type_name = ''symbol'', type_char = CHR ''s'',
     validator = None,
     null_assigner = (\<lambda>k idx. put_cell k idx (S None)),
     value_assigner = (\<lambda>k v idx. put_cell k idx (S (Some (c_str v)))),
     formatter = (\<lambda>k idx. bind_err (cell k idx) (\<lambda>x. map_ok
        (\<lambda>s. case s of None \<Rightarrow> [] | Some text \<Rightarrow> text) (fld_s x))) \<rparr>"

text \<open>
  The map is an \<open>unordered_map\<close>; it is kept as the list of its entries. Keys and type
  codes are pairwise distinct, so no lookup depends on the iteration order.
\<close>

definition createExtendedTypeMap :: "libc \<Rightarrow> (string \<times> TypeInfo) list" where
  "createExtendedTypeMap lib =
     [(''b'', boolean_info), (''g'', byte_info), (''h'', short_info), (''i'', int_info),
      (''j'', long_info), (''e'', real_info lib), (''f'', float_info lib), (''c'', char_info),
      (''d'', date_info lib), (''z'', datetime_info lib), (''t'', time_info lib),
      (''s'', symbol_info)]"

definition getTypeMap :: "libc \<Rightarrow> (string \<times> int \<times> string) list" where
  "getTypeMap lib = map (\<lambda>(key, info). (key, kdb_type info, type_name info)) (createExtendedTypeMap lib)"

definition find_type :: "libc \<Rightarrow> int \<Rightarrow> TypeInfo option" where
  "find_type lib t = map_option snd (find (\<lambda>(key, info). kdb_type info = t) (createExtendedTypeMap lib))"

definition is_null_value :: "libc \<Rightarrow> K \<Rightarrow> nat \<Rightarrow> error + bool" where
  "is_null_value lib col_data idx =
     (case find_type lib (kt col_data) of
        None \<Rightarrow> Inr True
      | Some info \<Rightarrow>
          if kt col_data = KS then bind_err (cell col_data idx) (\<lambda>x. map_ok (\<lambda>s. s = None) (fld_s x))
          else map_ok (\<lambda>text. text = ''NULL'') (formatter info col_data idx))"

definition assign_null_value :: "libc \<Rightarrow> K \<Rightarrow> nat \<Rightarrow> error + K" where
  "assign_null_value lib col_data idx =
     (case find_type lib (kt col_data) of
        None \<Rightarrow> Inr col_data
      | Some info \<Rightarrow> null_assigner info col_data idx)"

text \<open>\<open>catch (...)\<close> catches every exception; undefined behaviour is not an exception.\<close>

definition assign_value :: "libc \<Rightarrow> K \<Rightarrow> string \<Rightarrow> nat \<Rightarrow> error + K" where
  "assign_value lib col_data v idx =
     (if v = [] then assign_null_value lib col_data idx
      else
        (case find_type lib (kt col_data) of
           None \<Rightarrow> Inr col_data
         | Some info \<Rightarrow>
             (case value_assigner info col_data v idx of
                Inr k \<Rightarrow> Inr k
              | Inl UndefinedBehaviour \<Rightarrow> Inl UndefinedBehaviour
              | Inl e \<Rightarrow> assign_null_value lib col_data idx)))"

definition format_value :: "libc \<Rightarrow> K option \<Rightarrow> nat \<Rightarrow> error + string" where
  "format_value lib col_data idx =
     (case col_data of
        None \<Rightarrow> Inr ''NULL''
      | Some k \<Rightarrow>
          (case find_type lib (kt k) of
             None \<Rightarrow> Inr ''NULL''
           | Some info \<Rightarrow> formatter info k idx))"

subsection \<open>Type inference\<close>

definition type_priority :: "string list" where
  "type_priority = [''b'', ''i'', ''j'', ''f'', ''d'', ''z'', ''t'', ''p'', ''m'', ''n'', ''u'', ''v'', ''s'']"

text \<open>
  One pass of the inner loop: every entry with a validator that is still valid is tested
  on the value. \<open>type_validity\<close> is the list of (key, flag) pairs.
\<close>

definition test_value :: "(string \<times> TypeInfo) list \<Rightarrow> (string \<times> bool) list \<Rightarrow> string \<Rightarrow> (string \<times> bool) list" where
  "test_value type_map type_validity v =
     map (\<lambda>(key, valid).
            case map_of type_map key of
              None \<Rightarrow> (key, valid)
            | Some info \<Rightarrow>
                (case validator info of
                   None \<Rightarrow> (key, valid)
                 | Some accepts \<Rightarrow> if valid then (key, accepts v) else (key, valid)))
         type_validity"

fun test_values ::
  "(string \<times> TypeInfo) list \<Rightarrow> bool \<times> (string \<times> bool) list \<Rightarrow> string list \<Rightarrow> bool \<times> (string \<times> bool) list" where
  "test_values type_map (has_non_empty, type_validity) [] = (has_non_empty, type_validity)"
| "test_values type_map (has_non_empty, type_validity) (v # vs) =
     (if v \<noteq> [] then test_values type_map (True, test_value type_map type_validity v) vs
      else test_values type_map (has_non_empty, type_validity) vs)"

text \<open>
  \<open>type_validity[type]\<close> on a key that is absent inserts and yields \<open>false\<close>;
  \<open>type_map[type]\<close> on an absent key yields a value-initialized entry.
\<close>

definition infer_column_type :: "libc \<Rightarrow> string list \<Rightarrow> int" where
  "infer_column_type lib data =
     (let type_map = createExtendedTypeMap lib;
          (has_non_empty, type_validity) =
             test_values type_map (False, map (\<lambda>(key, info). (key, True)) type_map) data;
          code_of = (\<lambda>key. case map_of type_map key of None \<Rightarrow> 0 | Some info \<Rightarrow> kdb_type info)
      in case find (\<lambda>ty. (case map_of type_validity ty of None \<Rightarrow> False | Some b \<Rightarrow> b) \<and> has_non_empty)
                type_priority of
           Some ty \<Rightarrow> code_of ty
         | None \<Rightarrow> code_of ''s'')"

text \<open>
  The inference the documentation describes: the thirteen types in priority order, each
  with its validator; the first whose validator accepts every non-empty sample, symbol
  when none does or every sample is empty.
\<close>

definition documented_priority :: "(int \<times> (string \<Rightarrow> bool)) list" where
  "documented_priority =
     [(KB, is_boolean), (KI, is_integer), (KJ, is_integer), (KF, is_float), (KD, is_date),
      (KZ, is_datetime), (KT, is_time), (KP, is_timestamp), (KM, is_month), (KN, is_timespan),
      (KU, is_minute), (KV, is_second), (KS, \<lambda>s. True)]"

definition infer_type_documented :: "string list \<Rightarrow> int" where
  "infer_type_documented samples =
     (let non_empty = filter (\<lambda>s. s \<noteq> []) samples
      in if non_empty = [] then KS
         else (case find (\<lambda>(code, accepts). list_all accepts non_empty) documented_priority of
                 None \<Rightarrow> KS
               | Some (code, accepts) \<Rightarrow> code))"

subsection \<open>Round trip and null sentinels\<close>

text \<open>Formatting the cell at an index and assigning the text back at the same index.\<close>

definition round_trip :: "TypeInfo \<Rightarrow> K \<Rightarrow> nat \<Rightarrow> error + K" where
  "round_trip info k idx = bind_err (formatter info k idx) (\<lambda>text. value_assigner info k text idx)"

text \<open>The null sentinel of each registered type code, as its null assigner writes it.\<close>

definition null_sentinel :: "libc \<Rightarrow> int \<Rightarrow> scalar" where
  "null_sentinel lib t =
     (if t = KB then G 0
      else if t = KG then G 0
      else if t = KH then H nh
      else if t = KI then I ni
      else if t = KJ then J nj
      else if t = KE then E (ne lib)
      else if t = KF then F (nf lib)
      else if t = KC then C CHR '' ''
      else if t = KD then I ni
      else if t = KZ then F (nf lib)
      else if t = KT then I ni
      else S None)"

text \<open>
  An instance of the library parameters for closed examples: it converts no floating
  point text and knows no calendar.
\<close>

definition sample_libc :: libc where
  "sample_libc = \<lparr>
     stof = (\<lambda>s. Inl NoConversion), stod = (\<lambda>s. Inl NoConversion),
     fixed7_float = (\<lambda>x. []), fixed7_double = (\<lambda>x. []),
     ne = 0x7FC00000, nf = 0x7FF8000000000000,
     double_eq = (\<lambda>a b. False),
     get_time_mktime = (\<lambda>fmt s. None), get_time_hms = (\<lambda>s. None),
     put_time_gmtime = (\<lambda>fmt t. []),
     seconds_to_days = (\<lambda>t. 0), days_to_seconds = (\<lambda>x. 0) \<rparr>"

section \<open>Metadata provider\<close>

definition validate_meta_result :: "K option \<Rightarrow> bool" where
  "validate_meta_result result =
     (case result of
        None \<Rightarrow> False
      | Some r \<Rightarrow> \<not> (kt r = - 128 \<or> kt r \<noteq> XT))"

text \<open>The elements of a symbol vector as strings; a null element pointer cannot be read.\<close>

definition symbol_strings :: "K \<Rightarrow> error + string list" where
  "symbol_strings k =
     (case k of
        Vec t xs \<Rightarrow>
          collect (map (\<lambda>x. case fld_s x of
                              Inl e \<Rightarrow> Inl e
                            | Inr None \<Rightarrow> Inl UndefinedBehaviour
                            | Inr (Some str) \<Rightarrow> Inr str) xs)
      | _ \<Rightarrow> Inl UndefinedBehaviour)"

definition build_metadata :: "libc \<Rightarrow> K \<Rightarrow> K \<Rightarrow> error + ColumnMeta list" where
  "build_metadata lib c_col t_col =
     (if kt c_col \<noteq> KS \<or> kt t_col \<noteq> KC then Inr []
      else
        bind_err (symbol_strings c_col) (\<lambda>names.
          collect (map (\<lambda>i.
              bind_err (bind_err (cell t_col i) fld_c) (\<lambda>type_char.
                Inr \<lparr> name = names ! i,
                      type_code = (case map_of (getTypeMap lib) [type_char] of
                                     None \<Rightarrow> 0
                                   | Some (code, nm) \<Rightarrow> code) \<rparr>))
            [0 ..< length names])))"

definition extract_metadata :: "libc \<Rightarrow> K \<Rightarrow> K \<Rightarrow> error + ColumnMeta list" where
  "extract_metadata lib keys vals =
     (if kt keys \<noteq> KS \<or> kt vals \<noteq> 0 then Inr []
      else
        bind_err (symbol_strings keys) (\<lambda>key_names.
          let col_index_map = map_of (rev (zip key_names [0 ..< length key_names]))
          in case (col_index_map ''c'', col_index_map ''t'') of
               (Some ci, Some ti) \<Rightarrow>
                 (case vals of
                    GList columns \<Rightarrow>
                      if ci < length columns \<and> ti < length columns
                      then build_metadata lib (columns ! ci) (columns ! ti)
                      else Inl UndefinedBehaviour
                  | _ \<Rightarrow> Inl UndefinedBehaviour)
             | _ \<Rightarrow> Inr []))"

definition meta_query :: "string \<Rightarrow> string" where
  "meta_query table_name = ''select c, t from meta `'' @ table_name"

definition get_metadata ::
  "engine \<Rightarrow> string list \<Rightarrow> libc \<Rightarrow> string \<Rightarrow> bool \<Rightarrow> (error + ColumnMeta list) \<times> string list" where
  "get_metadata eng log lib table_name internal_use =
     (let (query_result, log1) = inline_query eng log (meta_query table_name);
          result = get_result query_result
      in if \<not> validate_meta_result result then (Inr [], log1)
         else
           (case result of
              Some (Table (Dict keys vals)) \<Rightarrow> (extract_metadata lib keys vals, log1)
            | _ \<Rightarrow> (Inl UndefinedBehaviour, log1)))"

section \<open>The selection interface\<close>

definition iloc ::
  "engine \<Rightarrow> string list \<Rightarrow> libc \<Rightarrow> string \<Rightarrow> cint list \<Rightarrow> cint list
     \<Rightarrow> (error + KDBResult) \<times> string list" where
  "iloc eng log lib table_name rows cols =
     (case get_metadata eng log lib table_name True of
        (Inl e, log1) \<Rightarrow> (Inl e, log1)
      | (Inr metadata, log1) \<Rightarrow>
          if metadata = [] then (Inl (RuntimeError ''Invalid table name or empty table''), log1)
          else
            let (count_result, log2) = inline_query eng log1 (''count '' @ table_name)
            in case get_result count_result of
                 None \<Rightarrow> (Inl (RuntimeError ''Failed to get table row count''), log2)
               | Some count \<Rightarrow>
                   if kt count \<noteq> - KJ then (Inl (RuntimeError ''Failed to get table row count''), log2)
                   else
                     (case count of
                        Atom t (J row_count) \<Rightarrow>
                          (case find (\<lambda>row. sint row < 0 \<or> sint row \<ge> sint row_count) rows of
                             Some row \<Rightarrow>
                               (Inl (OutOfRange (''Row index out of bounds: '' @ to_string (sint row))), log2)
                           | None \<Rightarrow>
                               (case find (\<lambda>col. sint col < 0 \<or> sint col \<ge> int (length metadata)) cols of
                                  Some col \<Rightarrow>
                                    (Inl (OutOfRange (''Column index out of bounds: '' @ to_string (sint col))),
                                     log2)
                                | None \<Rightarrow>
                                    let query = build_iloc_query table_name rows cols;
                                        (query_result, log3) = inline_query eng log2 query
                                    in (process_iloc_result (get_result query_result), log3)))
                      | _ \<Rightarrow> (Inl UndefinedBehaviour, log2)))"

text \<open>
  \<open>std::getline(stream, condition, ',')\<close> in a loop: the segments between commas; no
  segment after a final comma or for an empty text.
\<close>

fun getline_segments :: "string \<Rightarrow> string \<Rightarrow> string list" where
  "getline_segments acc [] = (if acc = [] then [] else [rev acc])"
| "getline_segments acc (c # cs) =
     (if c = CHR '','' then rev acc # getline_segments [] cs else getline_segments (c # acc) cs)"

definition split_conditions :: "string \<Rightarrow> string list" where
  "split_conditions conditions =
     filter (\<lambda>condition. condition \<noteq> []) (map trim4 (getline_segments [] conditions))"

definition loc ::
  "engine \<Rightarrow> string list \<Rightarrow> libc \<Rightarrow> string \<Rightarrow> string \<Rightarrow> (error + KDBResult) \<times> string list" where
  "loc eng log lib table_name conditions =
     (case get_metadata eng log lib table_name True of
        (Inl e, log1) \<Rightarrow> (Inl e, log1)
      | (Inr metadata, log1) \<Rightarrow>
          if metadata = [] then (Inl (RuntimeError ''Invalid table name or empty table''), log1)
          else
            (case build_loc_query table_name (split_conditions conditions) metadata of
               Inl e \<Rightarrow> (Inl e, log1)
             | Inr query \<Rightarrow>
                 let (query_result, log2) = inline_query eng log1 query;
                     k_result = get_result query_result
                 in if k_result = None then (Inl (RuntimeError ''Query returned null result''), log2)
                    else (process_table_result k_result, log2)))"

text \<open>
  An engine holding the table of the unit tests, three rows of \<open>ticker\<close> (symbol),
  \<open>price\<close> and \<open>size\<close> (long): it answers the schema query and the row count.
\<close>

definition table1_engine :: engine where
  "table1_engine log query =
     (if query = ''select c, t from meta `table1'' then
        Some (Table (Dict (Vec KS [S (Some ''c''), S (Some ''t'')])
                (GList [Vec KS [S (Some ''ticker''), S (Some ''price''), S (Some ''size'')],
                        Vec KC [C CHR ''s'', C CHR ''j'', C CHR ''j'']])))
      else if query = ''count table1'' then Some (Atom (- KJ) (J 3))
      else None)"

text \<open>An engine that accepts every query and answers with the generic null.\<close>

definition accept_all :: engine where
  "accept_all log query = Some (Other 101)"

section \<open>Properties\<close>

lemmas type_codes =
  KB_def KG_def KH_def KI_def KJ_def KE_def KF_def KC_def KS_def KP_def KM_def KD_def
  KZ_def KN_def KU_def KV_def KT_def XT_def XD_def

subsection \<open>Index-based selection: the query text\<close>

lemma foldl_semicolon:
  "foldl (\<lambda>a b. a @ '';'' @ to_string_int b) (acc @ to_string_int x) ys
     = acc @ semicolon_separated (x # ys)"
proof (induction ys arbitrary: acc x)
  case Nil
  show ?case by simp
next
  case (Cons y ys)
  have "foldl (\<lambda>a b. a @ '';'' @ to_string_int b) (acc @ to_string_int x) (y # ys)
          = foldl (\<lambda>a b. a @ '';'' @ to_string_int b)
              ((acc @ to_string_int x @ '';'') @ to_string_int y) ys"
    by simp
  also have "\<dots> = (acc @ to_string_int x @ '';'') @ semicolon_separated (y # ys)"
    by (rule Cons.IH)
  finally show ?case by simp
qed

lemma format_indices_text: "format_indices xs d = index_list_text xs d"
proof (cases xs)
  case Nil
  then show ?thesis by (simp add: format_indices_def index_list_text_def)
next
  case (Cons x ys)
  have "foldl (\<lambda>a b. a @ '';'' @ to_string_int b) ([] @ to_string_int x) ys
          = [] @ semicolon_separated (x # ys)"
    by (rule foldl_semicolon)
  with Cons show ?thesis by (simp add: format_indices_def index_list_text_def)
qed

text \<open>
  C2. For every table name and every rows and cols index lists, \<open>build_iloc_query\<close> yields
  exactly \<open>(0!<table>)[<rows>;(cols <table>)[<cols>]]\<close>, where a non-empty index list is
  the parenthesized, semicolon-separated list of its indices in the caller's order, empty
  rows are \<open>til count <table>\<close> and empty cols are \<open>til count cols <table>\<close>.
\<close>

theorem build_iloc_query_text:
  "build_iloc_query t rows cols =
     ''(0!'' @ t @ '')['' @ index_list_text rows (''til count '' @ t) @
     '';(cols '' @ t @ '')['' @ index_list_text cols (''til count cols '' @ t) @ '']]''"
  by (simp add: build_iloc_query_def format_indices_text Let_def)

theorem build_iloc_query_text_witness:
  "build_iloc_query ''table1'' [0, 2] [] =
     ''(0!table1)[(0;2);(cols table1)[til count cols table1]]''"
  using build_iloc_query_text [of "''table1''" "[0, 2]" "[]"]
  by (simp add: index_list_text_def to_string_int_def to_string_def nat_to_dec.simps
      digit_char_def)

subsection \<open>Condition-based selection: the query text\<close>

lemma find_first_of_None: "(find_first_of e cs = None) = (\<forall>c \<in> set e. c \<notin> set cs)"
  by (induction e) auto

lemma needs_evaluation_compound: "needs_evaluation e = compound e"
  by (auto simp: needs_evaluation_def compound_def find_first_of_None)

lemma evaluate_expression_side_text: "evaluate_expression e md = side_text e"
  by (simp add: evaluate_expression_def side_text_def needs_evaluation_compound)

lemma find_schema_type:
  "(case find (\<lambda>meta. name meta = lhs) md of Some meta \<Rightarrow> Some (type_code meta) | None \<Rightarrow> None)
     = schema_type md lhs"
  by (induction md) (auto simp: schema_type_def)

lemma valid_ops_mapped_op: "map_of valid_ops op = mapped_op op"
  by (simp add: valid_ops_def mapped_op_def)

lemma process_condition_step:
  assumes "mapped_op op = Some m"
  shows "process_condition (lhs, op, rhs) md valid_ops q =
     Inr (''(0!select from ('' @ q @ '') where '' @ side_text lhs @ '' '' @ m @ '' '' @
          rhs_text md lhs rhs @ '')'')"
proof -
  have ops: "map_of valid_ops op = Some m"
    using assms by (simp add: valid_ops_mapped_op)
  have rhs: "(case find (\<lambda>meta. name meta = lhs) md of
                Some meta \<Rightarrow> if type_code meta = KS \<and> \<not> needs_evaluation rhs then ''`'' @ rhs
                             else evaluate_expression rhs md
              | None \<Rightarrow> evaluate_expression rhs md) = rhs_text md lhs rhs"
    using find_schema_type [of lhs md]
    by (auto simp: rhs_text_def symbol_column_def needs_evaluation_compound
        evaluate_expression_side_text split: option.splits)
  show ?thesis
    by (simp add: process_condition_def ops rhs evaluate_expression_side_text Let_def)
qed

text \<open>
  C4. In a condition step whose operator is one of the nine, the left side is passed
  through (parenthesized when it contains an arithmetic operator or a parenthesis); the
  right side is the backtick-prefixed symbol literal when the left side is a column name
  of schema type Symbol and the right side has no arithmetic operator or parenthesis, and
  is passed through like the left side in every other case.
\<close>

theorem process_condition_type_aware:
  assumes "mapped_op op = Some m"
  shows "process_condition (lhs, op, rhs) md valid_ops q =
     Inr (''(0!select from ('' @ q @ '') where '' @ side_text lhs @ '' '' @ m @ '' '' @
          (if symbol_column md lhs \<and> \<not> compound rhs then ''`'' @ rhs else side_text rhs) @ '')'')"
  using process_condition_step [OF assms] by (simp add: rhs_text_def)

theorem process_condition_type_aware_witness:
  "process_condition (''ticker'', ''='', ''AAPL'') [\<lparr>name = ''ticker'', type_code = 11\<rparr>] valid_ops ''t''
     = Inr ''(0!select from (t) where ticker = `AAPL)''"
proof -
  have m: "mapped_op ''='' = Some ''=''" by (simp add: mapped_op_def)
  have s: "symbol_column [\<lparr>name = ''ticker'', type_code = 11\<rparr>] ''ticker''"
    by (simp add: symbol_column_def schema_type_def KS_def)
  have c: "\<not> compound ''AAPL''" "\<not> compound ''ticker''" by (simp_all add: compound_def)
  show ?thesis
    using process_condition_type_aware [OF m, of "''ticker''" "''AAPL''" "[\<lparr>name = ''ticker'', type_code = 11\<rparr>]" "''t''"] s c
    by (simp add: side_text_def)
qed

lemma build_loc_loop_accepted:
  assumes "accepted c"
  shows "build_loc_loop md q (c # cs) = build_loc_loop md (step_text md q c) cs"
proof -
  from assms obtain lhs op rhs m where r: "condition_regex c = Some (lhs, op, rhs)"
    and m: "mapped_op op = Some m"
    by (auto simp: accepted_def split: option.splits)
  show ?thesis
    by (simp add: r m step_text_def process_condition_step [OF m])
qed

lemma nested_query_snoc:
  "nested_query md t (xs @ [c]) = nested_query md (step_text md t c) xs"
  by (induction xs) simp_all

lemma build_loc_loop_nested:
  "list_all accepted cs \<Longrightarrow> build_loc_loop md q cs = Inr (nested_query md q (rev cs))"
proof (induction cs arbitrary: q)
  case Nil
  show ?case by simp
next
  case (Cons c cs)
  then have "accepted c" and rest: "list_all accepted cs" by simp_all
  then have "build_loc_loop md q (c # cs) = build_loc_loop md (step_text md q c) cs"
    by (simp only: build_loc_loop_accepted)
  also have "\<dots> = Inr (nested_query md (step_text md q c) (rev cs))"
    using rest by (rule Cons.IH)
  finally show ?case by (simp add: nested_query_snoc)
qed

text \<open>
  C1. For every table name and every list of conditions that the condition pattern and
  the operator table accept, \<open>build_loc_query\<close> returns the nesting of the steps from left
  to right: the bare table name innermost, each condition wrapping the query before it as
  \<open>(0!select from (<prev>) where <lhs> <mappedOp> <rhs>)\<close>, the operator mapped by
  \<open>mapped_op\<close>.
\<close>

theorem build_loc_query_nesting:
  "list_all accepted conditions \<Longrightarrow>
     build_loc_query table_name conditions md = Inr (nested_query md table_name (rev conditions))"
  unfolding build_loc_query_def by (rule build_loc_loop_nested)

theorem build_loc_query_nesting_witness:
  "list_all accepted [''price > 25'', ''ticker=AAPL''] \<and>
   build_loc_query ''t'' [''price > 25'', ''ticker=AAPL''] [\<lparr>name = ''ticker'', type_code = 11\<rparr>]
     = Inr ''(0!select from ((0!select from (t) where price > 25)) where ticker = `AAPL)''"
proof -
  have h: "list_all accepted [''price > 25'', ''ticker=AAPL'']" by code_simp
  have e: "nested_query [\<lparr>name = ''ticker'', type_code = 11\<rparr>] ''t'' (rev [''price > 25'', ''ticker=AAPL''])
             = ''(0!select from ((0!select from (t) where price > 25)) where ticker = `AAPL)''"
    by code_simp
  show ?thesis
    using build_loc_query_nesting [OF h, of "''t''" "[\<lparr>name = ''ticker'', type_code = 11\<rparr>]"] h e
    by simp
qed

subsection \<open>Result shaper\<close>

text \<open>
  C6, at two responses that are general lists of rows. When the rows are typed vectors
  (two rows of two long columns), the first element is not a general list and the result
  is a Row holding the first value of each row. When the first row is a general list and
  a later row is a typed vector, the vector's data is read as object pointers.
\<close>

theorem process_iloc_result_vector_rows:
  "process_iloc_result (Some (GList [Vec KJ [J 20, J 10], Vec KJ [J 30, J 20]]))
     = Inr (RRow [VLong 20, VLong 30])
   \<and> process_iloc_result
       (Some (GList [GList [Atom (- KS) (S (Some ''a'')), Atom (- KJ) (J 10)], Vec KJ [J 1, J 20]]))
     = Inl UndefinedBehaviour"
  by (simp add: process_iloc_result_def process_general_list_def convert_vector_def map_ok_def
      type_codes convert_atom_def)

subsection \<open>Type inference\<close>

text \<open>
  C8, at a column of minute values: the documented priority order reaches the minute
  type, whose validator accepts \<open>12:30\<close>; \<open>infer_column_type\<close> answers symbol, because
  the registry has no entry for timestamp, month, timespan, minute and second.
\<close>

theorem infer_column_type_minute_column:
  "infer_column_type lib [''12:30''] = KS \<and> infer_type_documented [''12:30''] = KU"
  by code_simp

subsection \<open>Decimal text and back\<close>

lemma digit_cases: "d < 10 \<Longrightarrow> d \<in> {0, 1, 2, 3, 4, 5, 6, 7, 8, 9 :: nat}"
  by auto

lemma digit_char_props:
  assumes "d < 10"
  shows "is_digit (digit_char d)" and "digit_val (digit_char d) = int d"
    and "\<not> is_space (digit_char d)" and "digit_char d \<noteq> CHR 0x00"
    and "digit_char d \<noteq> CHR ''-''" and "digit_char d \<noteq> CHR ''+''"
  using digit_cases [OF assms]
  by (auto simp: digit_char_def is_digit_def digit_val_def is_space_def)

lemma nat_to_dec_digits: "list_all is_digit (nat_to_dec n)"
proof (induction n rule: nat_to_dec.induct)
  case (1 n)
  show ?case
  proof (cases "n < 10")
    case True
    then show ?thesis by (simp add: nat_to_dec.simps [of n] digit_char_props)
  next
    case False
    then show ?thesis using 1 by (simp add: nat_to_dec.simps [of n] digit_char_props)
  qed
qed

lemma nat_to_dec_nonempty: "nat_to_dec n \<noteq> []"
  by (simp add: nat_to_dec.simps [of n])

lemma dec_value_snoc: "dec_value (ds @ [c]) = 10 * dec_value ds + digit_val c"
  by (simp add: dec_value_def)

lemma dec_value_nat_to_dec: "dec_value (nat_to_dec n) = int n"
proof (induction n rule: nat_to_dec.induct)
  case (1 n)
  show ?case
  proof (cases "n < 10")
    case True
    then show ?thesis by (simp add: nat_to_dec.simps [of n] dec_value_def digit_char_props)
  next
    case False
    then have "dec_value (nat_to_dec n) = 10 * int (n div 10) + int (n mod 10)"
      using 1 by (simp add: nat_to_dec.simps [of n] dec_value_snoc digit_char_props)
    then show ?thesis by (simp add: zdiv_int zmod_int)
  qed
qed

lemma is_digit_facts:
  "is_digit c \<Longrightarrow> \<not> is_space c \<and> c \<noteq> CHR 0x00 \<and> c \<noteq> CHR ''-'' \<and> c \<noteq> CHR ''+''"
  by (auto simp: is_digit_def is_space_def)

lemma strto_int_digits:
  assumes "list_all is_digit ds" and "ds \<noteq> []"
  shows "strto_int ds = Some (dec_value ds)" and "strto_int (CHR ''-'' # ds) = Some (- dec_value ds)"
proof -
  from assms obtain d ds' where ds: "ds = d # ds'" by (cases ds) auto
  with assms have d: "is_digit d" by simp
  have nonul: "\<forall>c \<in> set ds. c \<noteq> CHR 0x00"
    using assms(1) is_digit_facts by (auto simp: list_all_iff)
  have tw: "takeWhile is_digit ds = ds"
    using assms(1) by (simp add: list_all_iff)
  have cs: "c_str ds = ds" "c_str (CHR ''-'' # ds) = CHR ''-'' # ds"
    using nonul by (simp_all add: c_str_def)
  have dw: "dropWhile is_space ds = ds"
    using is_digit_facts [OF d] by (simp add: ds)
  have sg: "(case ds of [] \<Rightarrow> [] | c # cs \<Rightarrow> if c = CHR ''-'' \<or> c = CHR ''+'' then cs else ds) = ds"
    using is_digit_facts [OF d] by (simp add: ds)
  have ng: "(case ds of [] \<Rightarrow> False | c # cs \<Rightarrow> c = CHR ''-'') = False"
    using is_digit_facts [OF d] by (simp add: ds)
  show "strto_int ds = Some (dec_value ds)"
    using assms(2) by (simp add: strto_int_def cs dw sg ng tw Let_def)
  have dw': "dropWhile is_space (CHR ''-'' # ds) = CHR ''-'' # ds"
    by (simp add: is_space_def)
  show "strto_int (CHR ''-'' # ds) = Some (- dec_value ds)"
    using assms(2) by (simp add: strto_int_def cs dw' tw Let_def del: dropWhile.simps)
qed

lemma strto_int_to_string: "strto_int (to_string n) = Some n"
proof (cases "n < 0")
  case True
  then show ?thesis
    using strto_int_digits(2) [OF nat_to_dec_digits nat_to_dec_nonempty, of "nat (- n)"]
    by (simp add: to_string_def dec_value_nat_to_dec)
next
  case False
  then show ?thesis
    using strto_int_digits(1) [OF nat_to_dec_digits nat_to_dec_nonempty, of "nat n"]
    by (simp add: to_string_def dec_value_nat_to_dec)
qed

lemma stoi_to_string: "stoi (to_string (sint (i :: 32 word))) = Inr i"
proof -
  have "- (2 ^ 31) \<le> sint i" "sint i < 2 ^ 31"
    using sint_ge [of i] sint_lt [of i] by simp_all
  then show ?thesis by (simp add: stoi_def strto_int_to_string)
qed

lemma stoll_to_string: "stoll (to_string (sint (j :: 64 word))) = Inr j"
proof -
  have "- (2 ^ 63) \<le> sint j" "sint j < 2 ^ 63"
    using sint_ge [of j] sint_lt [of j] by simp_all
  then show ?thesis by (simp add: stoll_def strto_int_to_string)
qed

lemma stoi_to_string_short: "stoi (to_string (sint (h :: 16 word))) = Inr (word_of_int (sint h))"
proof -
  have "- (2 ^ 15) \<le> sint h" "sint h < 2 ^ 15"
    using sint_ge [of h] sint_lt [of h] by simp_all
  then have "- (2 ^ 31) \<le> sint h" "sint h < 2 ^ 31" by simp_all
  then show ?thesis by (simp add: stoi_def strto_int_to_string)
qed

subsection \<open>The registry entries\<close>

lemmas info_defs =
  boolean_info_def byte_info_def short_info_def int_info_def long_info_def real_info_def float_info_def char_info_def date_info_def datetime_info_def time_info_def symbol_info_def

lemma registered_cases:
  "(key, info) \<in> set (createExtendedTypeMap lib) \<Longrightarrow>
     info \<in> {boolean_info, byte_info, short_info, int_info, long_info, real_info lib, float_info lib, char_info, date_info lib, datetime_info lib, time_info lib, symbol_info}"
  by (auto simp: createExtendedTypeMap_def)

lemma kdb_type_entries:
  "kdb_type boolean_info = KB"
  "kdb_type byte_info = KG"
  "kdb_type short_info = KH"
  "kdb_type int_info = KI"
  "kdb_type long_info = KJ"
  "kdb_type (real_info lib) = KE"
  "kdb_type (float_info lib) = KF"
  "kdb_type char_info = KC"
  "kdb_type (date_info lib) = KD"
  "kdb_type (datetime_info lib) = KZ"
  "kdb_type (time_info lib) = KT"
  "kdb_type symbol_info = KS"
  by (simp_all add: info_defs)

lemma find_type_entries:
  "find_type lib KB = Some boolean_info"
  "find_type lib KG = Some byte_info"
  "find_type lib KH = Some short_info"
  "find_type lib KI = Some int_info"
  "find_type lib KJ = Some long_info"
  "find_type lib KE = Some (real_info lib)"
  "find_type lib KF = Some (float_info lib)"
  "find_type lib KC = Some char_info"
  "find_type lib KD = Some (date_info lib)"
  "find_type lib KZ = Some (datetime_info lib)"
  "find_type lib KT = Some (time_info lib)"
  "find_type lib KS = Some symbol_info"
  by (simp_all add: find_type_def createExtendedTypeMap_def kdb_type_entries type_codes)

lemma null_sentinel_entries:
  "null_sentinel lib KB = G 0"
  "null_sentinel lib KG = G 0"
  "null_sentinel lib KH = H nh"
  "null_sentinel lib KI = I ni"
  "null_sentinel lib KJ = J nj"
  "null_sentinel lib KE = E (ne lib)"
  "null_sentinel lib KF = F (nf lib)"
  "null_sentinel lib KC = C CHR '' ''"
  "null_sentinel lib KD = I ni"
  "null_sentinel lib KZ = F (nf lib)"
  "null_sentinel lib KT = I ni"
  "null_sentinel lib KS = S None"
  by (simp_all add: null_sentinel_def type_codes)

lemma null_assigner_entries:
  assumes "idx < length xs"
  shows "null_assigner boolean_info (Vec t xs) idx = Inr (Vec t (xs[idx := G 0]))"
    and "null_assigner byte_info (Vec t xs) idx = Inr (Vec t (xs[idx := G 0]))"
    and "null_assigner short_info (Vec t xs) idx = Inr (Vec t (xs[idx := H nh]))"
    and "null_assigner int_info (Vec t xs) idx = Inr (Vec t (xs[idx := I ni]))"
    and "null_assigner long_info (Vec t xs) idx = Inr (Vec t (xs[idx := J nj]))"
    and "null_assigner (real_info lib) (Vec t xs) idx = Inr (Vec t (xs[idx := E (ne lib)]))"
    and "null_assigner (float_info lib) (Vec t xs) idx = Inr (Vec t (xs[idx := F (nf lib)]))"
    and "null_assigner char_info (Vec t xs) idx = Inr (Vec t (xs[idx := C CHR '' '']))"
    and "null_assigner (date_info lib) (Vec t xs) idx = Inr (Vec t (xs[idx := I ni]))"
    and "null_assigner (datetime_info lib) (Vec t xs) idx = Inr (Vec t (xs[idx := F (nf lib)]))"
    and "null_assigner (time_info lib) (Vec t xs) idx = Inr (Vec t (xs[idx := I ni]))"
    and "null_assigner symbol_info (Vec t xs) idx = Inr (Vec t (xs[idx := S None]))"
  using assms by (simp_all add: info_defs put_cell_def)

lemma value_assigner_entries:
  assumes "idx < length xs"
  shows "value_assigner boolean_info (Vec t xs) v idx \<noteq> Inl UndefinedBehaviour"
    and "value_assigner byte_info (Vec t xs) v idx \<noteq> Inl UndefinedBehaviour"
    and "value_assigner short_info (Vec t xs) v idx \<noteq> Inl UndefinedBehaviour"
    and "value_assigner int_info (Vec t xs) v idx \<noteq> Inl UndefinedBehaviour"
    and "value_assigner long_info (Vec t xs) v idx \<noteq> Inl UndefinedBehaviour"
    and "value_assigner (real_info lib) (Vec t xs) v idx \<noteq> Inl UndefinedBehaviour"
    and "value_assigner (float_info lib) (Vec t xs) v idx \<noteq> Inl UndefinedBehaviour"
    and "value_assigner char_info (Vec t xs) v idx \<noteq> Inl UndefinedBehaviour"
    and "value_assigner (date_info lib) (Vec t xs) v idx \<noteq> Inl UndefinedBehaviour"
    and "value_assigner (datetime_info lib) (Vec t xs) v idx \<noteq> Inl UndefinedBehaviour"
    and "value_assigner (time_info lib) (Vec t xs) v idx \<noteq> Inl UndefinedBehaviour"
    and "value_assigner symbol_info (Vec t xs) v idx \<noteq> Inl UndefinedBehaviour"
  using assms by (simp_all add: info_defs put_cell_def thrown_def Let_def split: sum.splits conv_error.splits)

lemma find_type_registered:
  "(key, info) \<in> set (createExtendedTypeMap lib) \<Longrightarrow> find_type lib (kdb_type info) = Some info"
  using registered_cases [of key info lib]
  by (auto simp: kdb_type_entries find_type_entries)

lemma null_assigner_registered:
  "(key, info) \<in> set (createExtendedTypeMap lib) \<Longrightarrow> idx < length xs \<Longrightarrow>
     null_assigner info (Vec t xs) idx = Inr (Vec t (xs[idx := null_sentinel lib (kdb_type info)]))"
  using registered_cases [of key info lib]
  by (auto simp: kdb_type_entries null_sentinel_entries null_assigner_entries)

lemma value_assigner_defined:
  "(key, info) \<in> set (createExtendedTypeMap lib) \<Longrightarrow> idx < length xs \<Longrightarrow>
     value_assigner info (Vec t xs) v idx \<noteq> Inl UndefinedBehaviour"
  using registered_cases [of key info lib]
  by (auto simp: value_assigner_entries)

subsection \<open>Assigning a value from text\<close>

text \<open>
  C10. For every registered type and every column of that type, \<open>assign_value\<close> at an
  index of the column returns a column and no exception: for an empty text, and for a
  text on which the type's value assigner throws, the column with the type's null
  sentinel at that index; otherwise what the value assigner wrote.
\<close>

theorem assign_value_never_throws:
  assumes "(key, info) \<in> set (createExtendedTypeMap lib)" and "idx < length xs"
  shows "(\<exists>k'. assign_value lib (Vec (kdb_type info) xs) v idx = Inr k')
       \<and> (v = [] \<longrightarrow> assign_value lib (Vec (kdb_type info) xs) v idx
              = Inr (Vec (kdb_type info) (xs[idx := null_sentinel lib (kdb_type info)])))
       \<and> (\<forall>e. v \<noteq> [] \<longrightarrow> value_assigner info (Vec (kdb_type info) xs) v idx = Inl e \<longrightarrow>
              assign_value lib (Vec (kdb_type info) xs) v idx
                = Inr (Vec (kdb_type info) (xs[idx := null_sentinel lib (kdb_type info)])))
       \<and> (\<forall>k'. v \<noteq> [] \<longrightarrow> value_assigner info (Vec (kdb_type info) xs) v idx = Inr k' \<longrightarrow>
              assign_value lib (Vec (kdb_type info) xs) v idx = Inr k')"
proof -
  let ?col = "Vec (kdb_type info) xs"
  let ?null = "Inr (Vec (kdb_type info) (xs[idx := null_sentinel lib (kdb_type info)]))"
  have ft: "find_type lib (kdb_type info) = Some info"
    using find_type_registered [OF assms(1)] .
  have nul: "assign_null_value lib ?col idx = ?null"
    using null_assigner_registered [OF assms] by (simp add: assign_null_value_def ft)
  have empty: "v = [] \<Longrightarrow> assign_value lib ?col v idx = ?null"
    by (simp add: assign_value_def nul)
  have thrown: "assign_value lib ?col v idx = ?null"
    if "v \<noteq> []" and "value_assigner info ?col v idx = Inl e" for e
  proof -
    have "e \<noteq> UndefinedBehaviour"
      using value_assigner_defined [OF assms, of "kdb_type info" v] that(2) by auto
    then show ?thesis
      using that by (cases e) (simp_all add: assign_value_def ft nul)
  qed
  have ok: "assign_value lib ?col v idx = Inr k'"
    if "v \<noteq> []" and "value_assigner info ?col v idx = Inr k'" for k'
    using that by (simp add: assign_value_def ft)
  have total: "\<exists>k'. assign_value lib ?col v idx = Inr k'"
  proof (cases "v = []")
    case True
    then show ?thesis using empty by simp
  next
    case False
    then show ?thesis
      using thrown ok by (cases "value_assigner info ?col v idx") auto
  qed
  show ?thesis using total empty thrown ok by blast
qed

theorem assign_value_never_throws_witness:
  "assign_value sample_libc (Vec KI [I 7]) ''abc'' 0 = Inr (Vec KI [I ni])
   \<and> assign_value sample_libc (Vec KI [I 7]) [] 0 = Inr (Vec KI [I ni])
   \<and> assign_value sample_libc (Vec KI [I 7]) ''42'' 0 = Inr (Vec KI [I 42])"
proof -
  have m: "(''i'', int_info) \<in> set (createExtendedTypeMap sample_libc)"
    by (simp add: createExtendedTypeMap_def)
  have l: "(0::nat) < length [I 7]" by simp
  have t: "kdb_type int_info = KI" by (simp add: int_info_def)
  have n: "null_sentinel sample_libc KI = I ni" by (simp add: null_sentinel_def type_codes)
  have a: "value_assigner int_info (Vec KI [I 7]) ''abc'' 0 = Inl (InvalidArgument ''no conversion'')"
    by (simp add: int_info_def stoi_def strto_int_def c_str_def is_space_def is_digit_def
        thrown_def Let_def)
  have b: "value_assigner int_info (Vec KI [I 7]) ''42'' 0 = Inr (Vec KI [I 42])"
    by (simp add: int_info_def stoi_def strto_int_def c_str_def is_space_def is_digit_def
        dec_value_def digit_val_def put_cell_def Let_def)
  show ?thesis
    using assign_value_never_throws [OF m l, of "''abc''"]
      assign_value_never_throws [OF m l, of "[]"]
      assign_value_never_throws [OF m l, of "''42''"] a b
    by (simp add: t n)
qed

subsection \<open>Formatting and parsing back\<close>

text \<open>
  C7, as stated, fails for the byte type, whose formatter prints the number and whose
  value assigner stores the first character: 65 formats as \<open>65\<close> and parses back as 54.
  Its second half fails for the int type: the null sentinel formats as a number.
\<close>

theorem round_trip_counterexample:
  "round_trip byte_info (Vec KG [G 65]) 0 = Inr (Vec KG [G 54])
   \<and> formatter int_info (Vec KI [I ni]) 0 = Inr ''-2147483648''"
  by (simp add: round_trip_def byte_info_def int_info_def bind_err_def map_ok_def cell_def
      put_cell_def to_string_def nat_to_dec.simps digit_char_def ni_def)

lemma ucast_scast_short: "(ucast (scast (h :: 16 word) :: 32 word) :: 16 word) = h"
  by (rule bit_word_eqI) (auto simp: bit_simps)

lemma put_cell_same: "idx < length xs \<Longrightarrow> put_cell (Vec t xs) idx (xs ! idx) = Inr (Vec t xs)"
  by (simp add: put_cell_def)

text \<open>
  C7, amended. For boolean (0 or 1), short, int, long, char and symbol (a non-null C
  string) cells, formatting and assigning the text back leaves the column unchanged; the
  null sentinel of a date or time cell formats as \<open>NULL\<close>.
\<close>

theorem registry_round_trip:
  assumes "idx < length xs"
  shows "(xs ! idx = G 0 \<or> xs ! idx = G 1 \<longrightarrow>
            round_trip boolean_info (Vec KB xs) idx = Inr (Vec KB xs))
       \<and> (\<forall>h. xs ! idx = H h \<longrightarrow> round_trip short_info (Vec KH xs) idx = Inr (Vec KH xs))
       \<and> (\<forall>i. xs ! idx = I i \<longrightarrow> round_trip int_info (Vec KI xs) idx = Inr (Vec KI xs))
       \<and> (\<forall>j. xs ! idx = J j \<longrightarrow> round_trip long_info (Vec KJ xs) idx = Inr (Vec KJ xs))
       \<and> (\<forall>c. xs ! idx = C c \<longrightarrow> round_trip char_info (Vec KC xs) idx = Inr (Vec KC xs))
       \<and> (\<forall>sym. xs ! idx = S (Some sym) \<and> CHR 0x00 \<notin> set sym \<longrightarrow>
            round_trip symbol_info (Vec KS xs) idx = Inr (Vec KS xs))
       \<and> (xs ! idx = I ni \<longrightarrow>
            formatter (date_info lib) (Vec KD xs) idx = Inr ''NULL''
            \<and> formatter (time_info lib) (Vec KT xs) idx = Inr ''NULL'')"
proof -
  note same = put_cell_same [OF assms]
  have b0: "xs ! idx = G 0 \<Longrightarrow> round_trip boolean_info (Vec KB xs) idx = Inr (Vec KB xs)"
    using assms same [of KB]
    by (simp add: round_trip_def boolean_info_def bind_err_def map_ok_def cell_def trim4_def
        to_lower_def Let_def)
  have b1: "xs ! idx = G 1 \<Longrightarrow> round_trip boolean_info (Vec KB xs) idx = Inr (Vec KB xs)"
    using assms same [of KB]
    by (simp add: round_trip_def boolean_info_def bind_err_def map_ok_def cell_def trim4_def
        to_lower_def Let_def)
  have h: "xs ! idx = H h \<Longrightarrow> round_trip short_info (Vec KH xs) idx = Inr (Vec KH xs)" for h
    using assms same [of KH]
    by (simp add: round_trip_def short_info_def bind_err_def map_ok_def cell_def
        stoi_to_string_short ucast_scast_short)
  have i: "xs ! idx = I i \<Longrightarrow> round_trip int_info (Vec KI xs) idx = Inr (Vec KI xs)" for i
    using assms same [of KI]
    by (simp add: round_trip_def int_info_def bind_err_def map_ok_def cell_def stoi_to_string)
  have j: "xs ! idx = J j \<Longrightarrow> round_trip long_info (Vec KJ xs) idx = Inr (Vec KJ xs)" for j
    using assms same [of KJ]
    by (simp add: round_trip_def long_info_def bind_err_def map_ok_def cell_def stoll_to_string)
  have c: "xs ! idx = C c \<Longrightarrow> round_trip char_info (Vec KC xs) idx = Inr (Vec KC xs)" for c
    using assms same [of KC]
    by (simp add: round_trip_def char_info_def bind_err_def map_ok_def cell_def)
  have s: "xs ! idx = S (Some sym) \<Longrightarrow> CHR 0x00 \<notin> set sym \<Longrightarrow>
             round_trip symbol_info (Vec KS xs) idx = Inr (Vec KS xs)" for sym
  proof -
    assume a: "xs ! idx = S (Some sym)" and n: "CHR 0x00 \<notin> set sym"
    have "c_str sym = sym" using n by (auto simp: c_str_def intro: takeWhile_eq_all_conv [THEN iffD2])
    then show ?thesis
      using assms same [of KS] a
      by (simp add: round_trip_def symbol_info_def bind_err_def map_ok_def cell_def)
  qed
  have d: "xs ! idx = I ni \<Longrightarrow> formatter (date_info lib) (Vec KD xs) idx = Inr ''NULL''
             \<and> formatter (time_info lib) (Vec KT xs) idx = Inr ''NULL''"
    using assms by (simp add: date_info_def time_info_def bind_err_def map_ok_def cell_def)
  show ?thesis using b0 b1 h i j c s d by blast
qed

theorem registry_round_trip_witness:
  "round_trip int_info (Vec KI [I 5, I (- 12)]) 1 = Inr (Vec KI [I 5, I (- 12)])
   \<and> formatter (time_info sample_libc) (Vec KT [I 5, I ni]) 1 = Inr ''NULL''"
proof -
  have l: "(1::nat) < length [I 5, I (- 12)]" "(1::nat) < length [I 5, I ni]" by simp_all
  show ?thesis
    using registry_round_trip [OF l(1), of sample_libc] registry_round_trip [OF l(2), of sample_libc]
    by simp
qed

subsection \<open>Validation before the selection query\<close>

text \<open>
  C5, as stated: an \<open>iloc\<close> call with a row index out of bounds raises and sends no
  query. On the table of the unit tests, row 5 raises \<open>out_of_range\<close> after the schema
  query and the row count query were sent.
\<close>

theorem iloc_out_of_bounds_counterexample:
  "iloc table1_engine [] sample_libc ''table1'' [5] [0] =
     (Inl (OutOfRange ''Row index out of bounds: 5''),
      [''select c, t from meta `table1'', ''count table1''])"
  by code_simp

lemma get_metadata_log: "snd (get_metadata eng log lib t iu) = log @ [meta_query t]"
  by (simp add: get_metadata_def inline_query_def Let_def split: option.splits K.splits)

lemma build_loc_loop_rejects:
  "\<exists>c \<in> set cs. \<not> accepted c \<Longrightarrow> \<exists>msg. build_loc_loop md q cs = Inl (InvalidArgument msg)"
proof (induction cs arbitrary: q)
  case Nil
  then show ?case by simp
next
  case (Cons c cs)
  show ?case
  proof (cases "accepted c")
    case True
    then have "\<exists>c \<in> set cs. \<not> accepted c" using Cons.prems by auto
    then show ?thesis
      using Cons.IH [of "step_text md q c"] True by (simp only: build_loc_loop_accepted)
  next
    case False
    show ?thesis
    proof (cases "condition_regex c")
      case None
      then show ?thesis by simp
    next
      case (Some m)
      obtain lhs op rhs where m: "m = (lhs, op, rhs)" by (cases m) auto
      with Some False have "mapped_op op = None" by (simp add: accepted_def)
      then have "map_of valid_ops op = None" by (simp add: valid_ops_mapped_op)
      then show ?thesis by (simp add: Some m process_condition_def)
    qed
  qed
qed

lemma find_violation: "\<exists>x \<in> set xs. P x \<Longrightarrow> \<exists>x. find P xs = Some x"
  by (cases "find P xs") (auto simp: find_None_iff)

text \<open>
  C5, amended. When the schema query yields a non-empty schema: an \<open>iloc\<close> call whose
  row count query answers a long and that has a row index outside \<open>[0, row_count)\<close> or a
  column index outside \<open>[0, column_count)\<close> raises \<open>out_of_range\<close> having sent the
  schema query and the row count query only; a \<open>loc\<close> call with a condition that the
  pattern or the operator table rejects raises \<open>invalid_argument\<close> having sent the schema
  query only. No selection query is sent.
\<close>

theorem validation_precedes_selection:
  assumes "fst (get_metadata eng log lib t True) = Inr md" and "md \<noteq> []"
  shows "(eng (log @ [meta_query t]) (''count '' @ t) = Some (Atom (- KJ) (J row_count)) \<longrightarrow>
            ((\<exists>r \<in> set rows. sint r < 0 \<or> sint row_count \<le> sint r)
              \<or> (\<exists>c \<in> set cols. sint c < 0 \<or> int (length md) \<le> sint c)) \<longrightarrow>
            (\<exists>msg. iloc eng log lib t rows cols
                     = (Inl (OutOfRange msg), log @ [meta_query t, ''count '' @ t])))
       \<and> ((\<exists>c \<in> set (split_conditions conds). \<not> accepted c) \<longrightarrow>
            (\<exists>msg. loc eng log lib t conds = (Inl (InvalidArgument msg), log @ [meta_query t])))"
proof -
  have gm: "get_metadata eng log lib t True = (Inr md, log @ [meta_query t])"
    using assms(1) get_metadata_log [of eng log lib t True] by (cases "get_metadata eng log lib t True") simp
  have iloc_part: "\<exists>msg. iloc eng log lib t rows cols
                     = (Inl (OutOfRange msg), log @ [meta_query t, ''count '' @ t])"
    if cnt: "eng (log @ [meta_query t]) (''count '' @ t) = Some (Atom (- KJ) (J row_count))"
      and bad: "(\<exists>r \<in> set rows. sint r < 0 \<or> sint row_count \<le> sint r)
              \<or> (\<exists>c \<in> set cols. sint c < 0 \<or> int (length md) \<le> sint c)"
  proof -
    have iq: "inline_query eng (log @ [meta_query t]) (''count '' @ t)
                = (QData (Atom (- KJ) (J row_count)), log @ [meta_query t, ''count '' @ t])"
      using cnt by (simp add: inline_query_def KJ_def)
    show ?thesis
    proof (cases "find (\<lambda>row. sint row < 0 \<or> sint row \<ge> sint row_count) rows")
      case (Some row)
      then show ?thesis using assms(2) iq by (simp add: iloc_def gm)
    next
      case None
      then have "\<exists>c \<in> set cols. sint c < 0 \<or> int (length md) \<le> sint c"
        using bad by (auto simp: find_None_iff)
      then obtain col where "find (\<lambda>col. sint col < 0 \<or> sint col \<ge> int (length md)) cols = Some col"
        using find_violation [of cols "\<lambda>col. sint col < 0 \<or> sint col \<ge> int (length md)"] by auto
      then show ?thesis using assms(2) None iq by (simp add: iloc_def gm)
    qed
  qed
  have loc_part: "\<exists>msg. loc eng log lib t conds = (Inl (InvalidArgument msg), log @ [meta_query t])"
    if "\<exists>c \<in> set (split_conditions conds). \<not> accepted c"
  proof -
    from build_loc_loop_rejects [OF that, of md t]
    obtain msg where "build_loc_query t (split_conditions conds) md = Inl (InvalidArgument msg)"
      by (auto simp: build_loc_query_def)
    then show ?thesis using assms(2) by (simp add: loc_def gm)
  qed
  show ?thesis using iloc_part loc_part by blast
qed

theorem validation_precedes_selection_witness:
  "(\<exists>msg. iloc table1_engine [] sample_libc ''table1'' [0] [3]
            = (Inl (OutOfRange msg), [meta_query ''table1'', ''count table1'']))
   \<and> (\<exists>msg. loc table1_engine [] sample_libc ''table1'' ''price >, ticker=AAPL''
            = (Inl (InvalidArgument msg), [meta_query ''table1'']))"
proof -
  let ?md = "[\<lparr>name = ''ticker'', type_code = 11\<rparr>, \<lparr>name = ''price'', type_code = 7\<rparr>,
              \<lparr>name = ''size'', type_code = 7\<rparr>]"
  have g: "fst (get_metadata table1_engine [] sample_libc ''table1'' True) = Inr ?md"
    by code_simp
  have n: "?md \<noteq> []" by simp
  have c: "table1_engine ([] @ [meta_query ''table1'']) (''count '' @ ''table1'') = Some (Atom (- KJ) (J 3))"
    by (simp add: table1_engine_def)
  have b: "(\<exists>r \<in> set [0 :: cint]. sint r < 0 \<or> sint (3 :: 64 word) \<le> sint r)
             \<or> (\<exists>c \<in> set [3 :: cint]. sint c < 0 \<or> int (length ?md) \<le> sint c)"
    by simp
  have s: "\<exists>c \<in> set (split_conditions ''price >, ticker=AAPL''). \<not> accepted c"
  proof -
    have "split_conditions ''price >, ticker=AAPL'' = [''price >'', ''ticker=AAPL'']"
      by code_simp
    moreover have "\<not> accepted ''price >''" by code_simp
    ultimately show ?thesis by simp
  qed
  show ?thesis
    using validation_precedes_selection [OF g n, of 3 "[0]" "[3]" "''price >, ticker=AAPL''"] c b s
    by simp
qed

subsection \<open>Right join against left join\<close>

text \<open>
  C9, as stated: \<open>right_join(T1, T2, R, cols)\<close> produces the join query of
  \<open>left_join(T2, T1, R, cols)\<close>, also when the key is inferred. With no join columns the
  two texts differ: the right join keeps \<open>cols[T1] inter cols[T2]\<close>.
\<close>

theorem right_join_query_counterexample:
  "right_join_query ''A'' ''B'' ''R'' [] \<noteq> left_join_query ''B'' ''A'' ''R'' []"
  by (simp add: right_join_query_def left_join_query_def unkeyed_name_def)

text \<open>
  C9, amended. With join columns supplied, \<open>right_join(T1, T2, R, cols)\<close> builds the join
  query of \<open>left_join(T2, T1, R, cols)\<close>. With none, it joins the copy of T2 to the copy of
  T1 keyed on the first column of T1's copy that T2's copy also has (the left join with
  swapped operands would take the first column of T2's copy that T1's copy has).
\<close>

theorem right_join_query_swapped:
  "right_join_query T1 T2 R cols =
     (if cols \<noteq> [] then left_join_query T2 T1 R cols
      else R @ '': '' @ unkeyed_name T2 @ '' lj (enlist first cols['' @ unkeyed_name T1 @
           ''] inter cols['' @ unkeyed_name T2 @ '']) xkey '' @ unkeyed_name T1)"
  by (simp add: right_join_query_def left_join_query_def Let_def)

theorem right_join_query_swapped_witness:
  "right_join_query ''A'' ''B'' ''R'' [''k'', ''j''] = ''R: B_unkeyed lj `k`j xkey A_unkeyed''
   \<and> left_join_query ''B'' ''A'' ''R'' [''k'', ''j''] = ''R: B_unkeyed lj `k`j xkey A_unkeyed''"
  using right_join_query_swapped [of "''A''" "''B''" "''R''" "[''k'', ''j'']"]
  by (simp add: left_join_query_def unkeyed_name_def key_cols_text_def)

subsection \<open>Staging tables of a join call\<close>

text \<open>
  The inner, left, right and union joins: once staging succeeded, the last query of the
  call is the cleanup of both staging tables, whether the join query and the fetch
  succeed or not.
\<close>

lemma staged_join_cleanup_last:
  assumes "fst (prepare_tables eng log t1 t2)"
  shows "last (snd (staged_join eng log t1 t2 r q)) = cleanup_query (unkeyed_name t1) (unkeyed_name t2)"
  using assms
  by (auto simp: staged_join_def execute_join_def cleanup_tables_def inline_query_def Let_def
      split: prod.splits)

text \<open>
  C3, at an as-of join in which every query succeeds: the call stages \<open>T_unkeyed\<close> and
  \<open>Q_unkeyed\<close>, derives \<open>Q_unkeyed_adj\<close>, and returns after deleting \<open>T_unkeyed\<close> and
  \<open>Q_unkeyed_adj\<close> (the latter twice). No query deletes \<open>Q_unkeyed\<close>.
\<close>

theorem asof_join_leaves_right_copy:
  "snd (asof_join accept_all [] ''T'' ''Q'' ''R'' ''time'' ''time'' []) =
     [''T_unkeyed: 0!(T);Q_unkeyed: 0!(Q);'',
      ''Q_unkeyed_adj: update time2:time from Q_unkeyed'',
      ''R: aj[`time;T_unkeyed;Q_unkeyed_adj]'',
      ''R'',
      ''delete T_unkeyed from `.; delete Q_unkeyed_adj from `.;'',
      ''delete Q_unkeyed_adj from `.'']"
  by (simp add: asof_join_def prepare_tables_def inline_query_def accept_all_def execute_join_def
      cleanup_tables_def cleanup_query_def unkeyed_name_def Let_def)

end
